theory Spec2Isabelle
  imports Complex_Main "HOL-Library.AList" "HOL-Library.Sublist"
begin

section \<open>Python values, dictionaries and exceptions\<close>

text \<open>
  The orchestrator passes untyped dictionaries around.  A value is one of the JSON-like
  Python values below; a dictionary is an association list in insertion order whose keys
  are strings (every key in the program is a string).  A \<open>str\<close> is a list of characters,
  one character per code point, so the model covers text whose code points are below 256.
  A finite \<open>float\<close> is given by its exact value.
\<close>

datatype pyval =
    PNone
  | PBool bool
  | PInt int
  | PFloat rat
  | PStr string
  | PList "pyval list"
  | PDict "(string \<times> pyval) list"

type_synonym pydict = "(string \<times> pyval) list"

text \<open>An exception instance: its class name and \<open>str(e)\<close>.  Only subclasses of
  \<open>Exception\<close> are modelled, which is what \<open>except Exception\<close> catches.\<close>

datatype py_exn = Exn (exn_class: string) (exn_str: string)

text \<open>
  The parts of the Python runtime and of its libraries that the model does not interpret.
  Every theorem below holds for all of them.
  \<^item> \<open>py_str\<close>: \<open>str(v)\<close> for a value that is not a \<open>str\<close> (the \<open>repr\<close>-based text of
    lists, dictionaries and numbers);
  \<^item> \<open>json_loads\<close>: \<open>json.loads\<close>, which raises on malformed text;
  \<^item> \<open>re_search\<close>: \<open>re.search(pattern, s, re.IGNORECASE)\<close> finds a match;
  \<^item> \<open>fround\<close>: rounding of an exact result to the nearest \<open>float\<close>;
  \<^item> \<open>set_order\<close>: the iteration order of \<open>set(words)\<close>;
  \<^item> \<open>str_title\<close>, \<open>str_upper\<close>: \<open>str.title\<close> and \<open>str.upper\<close>, whose results can leave
    the code points below 256;
  \<^item> \<open>strftime\<close>, \<open>isoformat\<close>: formatting of a \<open>datetime\<close> (an instant is a number).
\<close>

record runtime =
  py_str :: "pyval \<Rightarrow> string"
  json_loads :: "string \<Rightarrow> py_exn + pyval"
  re_search :: "string \<Rightarrow> string \<Rightarrow> bool"
  fround :: "rat \<Rightarrow> rat"
  set_order :: "string list \<Rightarrow> string list"
  str_title :: "string \<Rightarrow> string"
  str_upper :: "string \<Rightarrow> string"
  strftime :: "string \<Rightarrow> nat \<Rightarrow> string"
  isoformat :: "nat \<Rightarrow> string"

text \<open>\<open>d.get(k, dflt)\<close>, \<open>d[k] = v\<close>, \<open>d[k]\<close> and \<open>k in d\<close>.\<close>

definition dict_get :: "pydict \<Rightarrow> string \<Rightarrow> pyval \<Rightarrow> pyval" where
  "dict_get d k dflt = (case map_of d k of None \<Rightarrow> dflt | Some v \<Rightarrow> v)"

definition dict_set :: "(string \<times> 'a) list \<Rightarrow> string \<Rightarrow> 'a \<Rightarrow> (string \<times> 'a) list" where
  "dict_set d k v = AList.update k v d"

definition dict_index :: "pydict \<Rightarrow> string \<Rightarrow> py_exn + pyval" where
  "dict_index d k =
     (case map_of d k of
        None \<Rightarrow> Inl (Exn ''KeyError'' ([CHR 0x27] @ k @ [CHR 0x27]))
      | Some v \<Rightarrow> Inr v)"

definition dict_contains :: "(string \<times> 'a) list \<Rightarrow> string \<Rightarrow> bool" where
  "dict_contains d k = (map_of d k \<noteq> None)"

fun type_name :: "pyval \<Rightarrow> string" where
  "type_name PNone = ''NoneType''"
| "type_name (PBool b) = ''bool''"
| "type_name (PInt i) = ''int''"
| "type_name (PFloat x) = ''float''"
| "type_name (PStr s) = ''str''"
| "type_name (PList xs) = ''list''"
| "type_name (PDict d) = ''dict''"

text \<open>Truth value of a Python value, as \<open>if v:\<close> and \<open>v or w\<close> test it.\<close>

fun truthy :: "pyval \<Rightarrow> bool" where
  "truthy PNone = False"
| "truthy (PBool b) = b"
| "truthy (PInt i) = (i \<noteq> 0)"
| "truthy (PFloat x) = (x \<noteq> 0)"
| "truthy (PStr s) = (s \<noteq> [])"
| "truthy (PList xs) = (xs \<noteq> [])"
| "truthy (PDict d) = (d \<noteq> [])"

text \<open>A value inside an f-string: a \<open>str\<close> is inserted as it is, anything else through
  \<open>str()\<close>.\<close>

definition fmt :: "runtime \<Rightarrow> pyval \<Rightarrow> string" where
  "fmt rt v = (case v of PStr s \<Rightarrow> s | _ \<Rightarrow> py_str rt v)"

text \<open>\<open>for x in v\<close>: a list yields its elements, a \<open>str\<close> its characters, a dictionary
  its keys; anything else raises.\<close>

fun py_iter :: "pyval \<Rightarrow> py_exn + pyval list" where
  "py_iter (PList xs) = Inr xs"
| "py_iter (PStr s) = Inr (map (\<lambda>c. PStr [c]) s)"
| "py_iter (PDict d) = Inr (map (\<lambda>kv. PStr (fst kv)) d)"
| "py_iter v = Inl (Exn ''TypeError''
      ([CHR 0x27] @ type_name v @ [CHR 0x27] @ '' object is not iterable''))"

text \<open>\<open>v[0]\<close> for a truthy \<open>v\<close>.\<close>

fun py_first :: "pyval \<Rightarrow> py_exn + pyval" where
  "py_first (PList (x # xs)) = Inr x"
| "py_first (PList []) = Inl (Exn ''IndexError'' ''list index out of range'')"
| "py_first (PStr (c # cs)) = Inr (PStr [c])"
| "py_first (PStr []) = Inl (Exn ''IndexError'' ''string index out of range'')"
| "py_first (PDict d) = Inl (Exn ''KeyError'' ''0'')"
| "py_first v = Inl (Exn ''TypeError''
      ([CHR 0x27] @ type_name v @ [CHR 0x27] @ '' object is not subscriptable''))"

definition opt_str :: "string option \<Rightarrow> pyval" where
  "opt_str s = (case s of None \<Rightarrow> PNone | Some t \<Rightarrow> PStr t)"

section \<open>Action derivation (\<open>agent/brain.py\<close>)\<close>

definition send_reply_action :: "pyval \<Rightarrow> pyval \<Rightarrow> pyval" where
  "send_reply_action reply recipient =
     PDict [(''type'', PStr ''send_reply''),
            (''description'', PStr ''Send suggested reply''),
            (''data'', PDict [(''reply'', reply), (''recipient'', recipient)])]"

definition create_task_action :: "string \<Rightarrow> pyval \<Rightarrow> pyval \<Rightarrow> pyval" where
  "create_task_action shown task priority =
     PDict [(''type'', PStr ''create_task''),
            (''description'', PStr (''Create task: '' @ shown)),
            (''data'', PDict [(''task'', task), (''priority'', priority)])]"

text \<open>The body of \<open>for task in analysis["tasks"]\<close> in \<open>_determine_actions\<close>: the task is
  formatted into the description and stored as it is; \<open>analysis["priority"]\<close> is read at
  every round.\<close>

fun create_task_actions :: "runtime \<Rightarrow> pydict \<Rightarrow> pyval list \<Rightarrow> py_exn + pyval list" where
  "create_task_actions rt analysis [] = Inr []"
| "create_task_actions rt analysis (task # rest) =
     (case dict_index analysis ''priority'' of
        Inl e \<Rightarrow> Inl e
      | Inr p \<Rightarrow>
          (case create_task_actions rt analysis rest of
             Inl e \<Rightarrow> Inl e
           | Inr acts \<Rightarrow> Inr (create_task_action (fmt rt task) task p # acts)))"

definition determine_actions :: "runtime \<Rightarrow> pydict \<Rightarrow> py_exn + pyval list" where
  "determine_actions rt analysis =
     (case (if truthy (dict_get analysis ''suggested_reply'' PNone)
            then (case dict_index analysis ''suggested_reply'' of
                    Inl e \<Rightarrow> Inl e
                  | Inr reply \<Rightarrow>
                      (case dict_index analysis ''sender'' of
                         Inl e \<Rightarrow> Inl e
                       | Inr recipient \<Rightarrow> Inr [send_reply_action reply recipient]))
            else Inr [])
      of
        Inl e \<Rightarrow> Inl e
      | Inr actions \<Rightarrow>
          (if truthy (dict_get analysis ''tasks'' PNone)
           then (case dict_index analysis ''tasks'' of
                   Inl e \<Rightarrow> Inl e
                 | Inr tasks \<Rightarrow>
                     (case py_iter tasks of
                        Inl e \<Rightarrow> Inl e
                      | Inr ts \<Rightarrow>
                          (case create_task_actions rt analysis ts of
                             Inl e \<Rightarrow> Inl e
                           | Inr acts \<Rightarrow> Inr (actions @ acts))))
           else Inr actions))"

section \<open>Result assembly (\<open>agent/brain.py\<close>)\<close>

text \<open>\<open>tool_results\<close> maps a tool name to the dictionary \<open>execute_tool\<close> returned for it.\<close>

type_synonym tool_results = "(string \<times> pydict) list"

definition initial_output :: "string \<Rightarrow> string option \<Rightarrow> string option \<Rightarrow> pydict" where
  "initial_output message sender synthesis =
     [(''message'', PStr message),
      (''sender'', (if truthy (opt_str sender) then opt_str sender else PStr ''Unknown'')),
      (''analysis'', opt_str synthesis),
      (''summary'', PNone),
      (''priority'', PStr ''MEDIUM''),
      (''category'', PStr ''other''),
      (''suggested_reply'', PNone),
      (''tasks'', PList []),
      (''actions'', PList [])]"

definition take_summary :: "tool_results \<Rightarrow> pydict \<Rightarrow> pydict" where
  "take_summary tool_results output =
     (case map_of tool_results ''summarizer'' of
        None \<Rightarrow> output
      | Some summary_data \<Rightarrow>
          dict_set output ''summary'' (dict_get summary_data ''summary'' (PStr '''')))"

definition take_priority :: "tool_results \<Rightarrow> pydict \<Rightarrow> pydict" where
  "take_priority tool_results output =
     (case map_of tool_results ''priority_detector'' of
        None \<Rightarrow> output
      | Some priority_data \<Rightarrow>
          dict_set output ''priority'' (dict_get priority_data ''priority'' (PStr ''MEDIUM'')))"

definition take_category :: "tool_results \<Rightarrow> pydict \<Rightarrow> pydict" where
  "take_category tool_results output =
     (case map_of tool_results ''categorizer'' of
        None \<Rightarrow> output
      | Some category_data \<Rightarrow>
          dict_set output ''category'' (dict_get category_data ''category'' (PStr ''other'')))"

definition take_reply :: "tool_results \<Rightarrow> pydict \<Rightarrow> py_exn + pydict" where
  "take_reply tool_results output =
     (case map_of tool_results ''reply_suggester'' of
        None \<Rightarrow> Inr output
      | Some reply_data \<Rightarrow>
          (let suggestions = dict_get reply_data ''suggestions'' (PList [])
           in if truthy suggestions
              then (case py_first suggestions of
                      Inl e \<Rightarrow> Inl e
                    | Inr s \<Rightarrow> Inr (dict_set output ''suggested_reply'' s))
              else Inr output))"

definition take_tasks :: "tool_results \<Rightarrow> pydict \<Rightarrow> pydict" where
  "take_tasks tool_results output =
     (case map_of tool_results ''task_extractor'' of
        None \<Rightarrow> output
      | Some task_data \<Rightarrow>
          dict_set output ''tasks'' (dict_get task_data ''tasks'' (PList [])))"

definition structure_output ::
  "runtime \<Rightarrow> string \<Rightarrow> string option \<Rightarrow> tool_results \<Rightarrow> string option \<Rightarrow> py_exn + pydict" where
  "structure_output rt message sender tool_results synthesis =
     (case take_reply tool_results
             (take_category tool_results
               (take_priority tool_results
                 (take_summary tool_results (initial_output message sender synthesis))))
      of
        Inl e \<Rightarrow> Inl e
      | Inr output4 \<Rightarrow>
          (let output = take_tasks tool_results output4
           in case determine_actions rt output of
                Inl e \<Rightarrow> Inl e
              | Inr actions \<Rightarrow> Inr (dict_set output ''actions'' (PList actions))))"

section \<open>Text primitives\<close>

text \<open>\<open>str.isspace\<close>, \<open>str.lower\<close> and \<open>str.strip\<close> on code points below 256.\<close>

definition py_isspace :: "char \<Rightarrow> bool" where
  "py_isspace c = (of_char c \<in> {9, 10, 11, 12, 13, 28, 29, 30, 31, 32, 133, 160 :: nat})"

definition lower_char :: "char \<Rightarrow> char" where
  "lower_char c =
     (let n = of_char c :: nat
      in if (65 \<le> n \<and> n \<le> 90) \<or> (192 \<le> n \<and> n \<le> 222 \<and> n \<noteq> 215)
         then char_of (n + 32) else c)"

definition lower :: "string \<Rightarrow> string" where
  "lower s = map lower_char s"

definition strip :: "string \<Rightarrow> string" where
  "strip s = rev (dropWhile py_isspace (rev (dropWhile py_isspace s)))"

text \<open>Decimal text of a natural number, as an f-string prints an \<open>int\<close>.\<close>

fun show_nat :: "nat \<Rightarrow> string" where
  "show_nat n =
     (if n < 10 then [char_of (48 + n)]
      else show_nat (n div 10) @ [char_of (48 + n mod 10)])"

declare show_nat.simps [simp del]

section \<open>The console, the clock and the file system\<close>

text \<open>
  The world a run acts on: the lines \<open>input()\<close> will return; what has been shown so far
  (by \<open>print\<close>, as the prompt of an \<open>input()\<close>, or as a traceback); the readings
  \<open>datetime.now()\<close> will give (reading \<open>k\<close> is \<open>clock k\<close>); what reading a file of the
  inbox gives; the files written so far, in order (a later write to the same path
  replaces the earlier one on disk); the files moved so far; and what happens to the
  successive file-system operations that change the disk (operation \<open>k\<close> raises the
  exception \<open>fs_error k\<close> when there is one, and succeeds otherwise).  Paths are relative
  to the project directory.
\<close>

datatype file_content = Text string | Json pyval

datatype console_event = Printed string | Prompted string | Traceback py_exn

record world =
  stdin :: "string list"
  stdout :: "console_event list"
  clock :: "nat \<Rightarrow> nat"
  ticks :: nat
  readable :: "string \<Rightarrow> py_exn + string"
  written :: "(string \<times> file_content) list"
  renamed :: "(string \<times> string) list"
  fs_error :: "nat \<Rightarrow> py_exn option"
  fs_ops :: nat

definition py_print :: "string \<Rightarrow> world \<Rightarrow> world" where
  "py_print s w = w\<lparr>stdout := stdout w @ [Printed s]\<rparr>"

definition py_input :: "string \<Rightarrow> world \<Rightarrow> (py_exn + string) \<times> world" where
  "py_input prompt w =
     (case stdin w of
        [] \<Rightarrow> (Inl (Exn ''EOFError'' ''EOF when reading a line''),
               w\<lparr>stdout := stdout w @ [Prompted prompt]\<rparr>)
      | l # ls \<Rightarrow> (Inr l, w\<lparr>stdin := ls, stdout := stdout w @ [Prompted prompt]\<rparr>))"

definition now :: "world \<Rightarrow> nat \<times> world" where
  "now w = (clock w (ticks w), w\<lparr>ticks := Suc (ticks w)\<rparr>)"

text \<open>\<open>with open(path, 'w') as f: ...\<close>: the open may raise; otherwise the file holds the
  content.  \<open>Path.rename\<close> likewise.\<close>

definition write_file :: "string \<Rightarrow> file_content \<Rightarrow> world \<Rightarrow> (py_exn + unit) \<times> world" where
  "write_file path content w =
     (case fs_error w (fs_ops w) of
        Some e \<Rightarrow> (Inl e, w\<lparr>fs_ops := Suc (fs_ops w)\<rparr>)
      | None \<Rightarrow>
          (Inr (), w\<lparr>fs_ops := Suc (fs_ops w), written := written w @ [(path, content)]\<rparr>))"

definition rename_file :: "string \<Rightarrow> string \<Rightarrow> world \<Rightarrow> (py_exn + unit) \<times> world" where
  "rename_file src dst w =
     (case fs_error w (fs_ops w) of
        Some e \<Rightarrow> (Inl e, w\<lparr>fs_ops := Suc (fs_ops w)\<rparr>)
      | None \<Rightarrow>
          (Inr (), w\<lparr>fs_ops := Suc (fs_ops w), renamed := renamed w @ [(src, dst)]\<rparr>))"

definition nl :: string where
  "nl = [CHR 0x0A]"

definition VAULT_INBOX :: string where "VAULT_INBOX = ''vault/inbox/''"
definition VAULT_PROCESSED :: string where "VAULT_PROCESSED = ''vault/processed/''"
definition VAULT_ACTIONS :: string where "VAULT_ACTIONS = ''vault/actions/''"
definition VAULT_LOGS :: string where "VAULT_LOGS = ''vault/logs/''"

section \<open>Approval gate (\<open>main.py\<close>)\<close>

text \<open>\<open>v[k]\<close> with a string key.\<close>

fun py_getitem :: "pyval \<Rightarrow> string \<Rightarrow> py_exn + pyval" where
  "py_getitem (PDict d) k = dict_index d k"
| "py_getitem (PStr s) k =
     Inl (Exn ''TypeError'' (''string indices must be integers, not '' @ [CHR 0x27] @ ''str'' @ [CHR 0x27]))"
| "py_getitem (PList xs) k =
     Inl (Exn ''TypeError'' ''list indices must be integers or slices, not str'')"
| "py_getitem v k = Inl (Exn ''TypeError''
      ([CHR 0x27] @ type_name v @ [CHR 0x27] @ '' object is not subscriptable''))"

text \<open>\<open>v[:100]\<close>.\<close>

fun py_slice100 :: "pyval \<Rightarrow> py_exn + pyval" where
  "py_slice100 (PStr s) = Inr (PStr (take 100 s))"
| "py_slice100 (PList xs) = Inr (PList (take 100 xs))"
| "py_slice100 (PDict d) =
     Inl (Exn ''TypeError'' (''unhashable type: '' @ [CHR 0x27] @ ''slice'' @ [CHR 0x27]))"
| "py_slice100 v = Inl (Exn ''TypeError''
      ([CHR 0x27] @ type_name v @ [CHR 0x27] @ '' object is not subscriptable''))"

definition action_description :: "runtime \<Rightarrow> pyval \<Rightarrow> py_exn + string" where
  "action_description rt action =
     (case py_getitem action ''description'' of
        Inl e \<Rightarrow> Inl e
      | Inr d \<Rightarrow> Inr (fmt rt d))"

text \<open>The line of details shown for an action: the first 100 characters of a reply, the
  task of a task, nothing for any other type.\<close>

definition action_detail :: "runtime \<Rightarrow> pyval \<Rightarrow> py_exn + string option" where
  "action_detail rt action =
     (case py_getitem action ''type'' of
        Inl e \<Rightarrow> Inl e
      | Inr ty \<Rightarrow>
          if ty = PStr ''send_reply''
          then (case py_getitem action ''data'' of
                  Inl e \<Rightarrow> Inl e
                | Inr da \<Rightarrow>
                    (case py_getitem da ''reply'' of
                       Inl e \<Rightarrow> Inl e
                     | Inr r \<Rightarrow>
                         (case py_slice100 r of
                            Inl e \<Rightarrow> Inl e
                          | Inr r100 \<Rightarrow> Inr (Some (''  Reply: '' @ fmt rt r100 @ ''...'')))))
          else if ty = PStr ''create_task''
          then (case py_getitem action ''data'' of
                  Inl e \<Rightarrow> Inl e
                | Inr da \<Rightarrow>
                    (case py_getitem da ''task'' of
                       Inl e \<Rightarrow> Inl e
                     | Inr t \<Rightarrow> Inr (Some (''  Task: '' @ fmt rt t))))
          else Inr None)"

definition show_action :: "runtime \<Rightarrow> nat \<Rightarrow> pyval \<Rightarrow> world \<Rightarrow> (py_exn + unit) \<times> world" where
  "show_action rt i action w =
     (case action_description rt action of
        Inl e \<Rightarrow> (Inl e, w)
      | Inr d \<Rightarrow>
          (let w1 = py_print ([CHR 0x0A] @ ''[ACTION '' @ show_nat i @ ''] '' @ d) w
           in case action_detail rt action of
                Inl e \<Rightarrow> (Inl e, w1)
              | Inr None \<Rightarrow> (Inr (), w1)
              | Inr (Some l) \<Rightarrow> (Inr (), py_print l w1)))"

text \<open>The test \<open>response in ['y', 'yes', '']\<close> on the stripped, lower-cased line.\<close>

definition approves :: "string \<Rightarrow> bool" where
  "approves line = (lower (strip line) \<in> set [''y'', ''yes'', []])"

definition approval_prompt :: string where
  "approval_prompt = [CHR 0x0A] @ ''  Approve this action? [Y/n]: ''"

fun approval_loop ::
  "runtime \<Rightarrow> nat \<Rightarrow> pyval list \<Rightarrow> pyval list \<Rightarrow> world \<Rightarrow> (py_exn + pyval list) \<times> world" where
  "approval_loop rt i [] approved w = (Inr approved, w)"
| "approval_loop rt i (action # rest) approved w =
     (case show_action rt i action w of
        (Inl e, w1) \<Rightarrow> (Inl e, w1)
      | (Inr u, w1) \<Rightarrow>
          (case py_input approval_prompt w1 of
             (Inl e, w2) \<Rightarrow> (Inl e, w2)
           | (Inr line, w2) \<Rightarrow>
               if approves line
               then approval_loop rt (Suc i) rest (approved @ [action])
                      (py_print ''  -> APPROVED'' w2)
               else approval_loop rt (Suc i) rest approved
                      (py_print ''  -> REJECTED'' w2)))"

definition approval_flow :: "runtime \<Rightarrow> pydict \<Rightarrow> world \<Rightarrow> (py_exn + pyval list) \<times> world" where
  "approval_flow rt result w =
     (let actions = dict_get result ''actions'' (PList [])
      in if \<not> truthy actions then (Inr [], w)
         else (let w1 = py_print ([CHR 0x0A] @ replicate 60 CHR ''-'') w;
                   w2 = py_print ''  APPROVAL REQUIRED'' w1;
                   w3 = py_print (replicate 60 CHR ''-'') w2
               in case py_iter actions of
                    Inl e \<Rightarrow> (Inl e, w3)
                  | Inr acts \<Rightarrow> approval_loop rt 1 acts [] w3))"

section \<open>Action executor and audit log (\<open>main.py\<close>)\<close>

text \<open>\<open>action['data'][k]\<close>.\<close>

definition action_data :: "pyval \<Rightarrow> string \<Rightarrow> py_exn + pyval" where
  "action_data action k =
     (case py_getitem action ''data'' of
        Inl e \<Rightarrow> Inl e
      | Inr da \<Rightarrow> py_getitem da k)"

definition execute_send_reply :: "runtime \<Rightarrow> pyval \<Rightarrow> pydict \<Rightarrow> world \<Rightarrow> (py_exn + unit) \<times> world" where
  "execute_send_reply rt action result w =
     (let (t1, w1) = now w;
          filename = ''reply_draft_'' @ strftime rt ''%Y%m%d_%H%M%S'' t1 @ ''.txt'';
          output_path = VAULT_ACTIONS @ filename;
          (t2, w2) = now w1
      in case action_data action ''recipient'' of
           Inl e \<Rightarrow> (Inl e, w2)
         | Inr recipient \<Rightarrow>
             (case action_data action ''reply'' of
                Inl e \<Rightarrow> (Inl e, w2)
              | Inr reply \<Rightarrow>
                  (let content =
                         ''Reply Draft'' @ nl
                         @ ''Generated: '' @ strftime rt ''%Y-%m-%d %H:%M:%S'' t2 @ nl
                         @ ''To: '' @ fmt rt recipient @ nl
                         @ ''Priority: '' @ fmt rt (dict_get result ''priority'' (PStr ''MEDIUM'')) @ nl
                         @ nl @ ''---'' @ nl @ nl
                         @ fmt rt reply @ nl
                         @ nl @ ''---'' @ nl @ nl
                         @ ''Note: This is a draft. Review and send manually.'' @ nl
                   in case write_file output_path (Text content) w2 of
                        (Inl e, w3) \<Rightarrow> (Inl e, w3)
                      | (Inr u, w3) \<Rightarrow>
                          (Inr (), py_print (''  -> Draft saved: '' @ output_path) w3))))"

definition execute_create_task :: "runtime \<Rightarrow> pyval \<Rightarrow> pydict \<Rightarrow> world \<Rightarrow> (py_exn + unit) \<times> world" where
  "execute_create_task rt action result w =
     (let (t1, w1) = now w;
          filename = ''task_'' @ strftime rt ''%Y%m%d_%H%M%S'' t1 @ ''.txt'';
          output_path = VAULT_ACTIONS @ filename;
          (t2, w2) = now w1
      in case action_data action ''priority'' of
           Inl e \<Rightarrow> (Inl e, w2)
         | Inr priority \<Rightarrow>
             (case action_data action ''task'' of
                Inl e \<Rightarrow> (Inl e, w2)
              | Inr task \<Rightarrow>
                  (let content =
                         ''Task'' @ nl
                         @ ''Created: '' @ strftime rt ''%Y-%m-%d %H:%M:%S'' t2 @ nl
                         @ ''Priority: '' @ fmt rt priority @ nl
                         @ nl @ ''---'' @ nl @ nl
                         @ fmt rt task @ nl
                         @ nl @ ''---'' @ nl @ nl
                         @ ''Source: '' @ fmt rt (dict_get result ''sender'' (PStr ''Unknown'')) @ nl
                         @ ''Category: '' @ fmt rt (dict_get result ''category'' (PStr ''other'')) @ nl
                   in case write_file output_path (Text content) w2 of
                        (Inl e, w3) \<Rightarrow> (Inl e, w3)
                      | (Inr u, w3) \<Rightarrow>
                          (Inr (), py_print (''  -> Task created: '' @ output_path) w3))))"

text \<open>The body of the \<open>try\<close> in \<open>execute_actions\<close>: dispatch on the type, then report
  success.\<close>

definition execute_one :: "runtime \<Rightarrow> pyval \<Rightarrow> pydict \<Rightarrow> world \<Rightarrow> (py_exn + unit) \<times> world" where
  "execute_one rt action result w =
     (case (case py_getitem action ''type'' of
              Inl e \<Rightarrow> (Inl e, w)
            | Inr ty \<Rightarrow>
                if ty = PStr ''send_reply'' then execute_send_reply rt action result w
                else if ty = PStr ''create_task'' then execute_create_task rt action result w
                else (Inr (), w))
      of
        (Inl e, w1) \<Rightarrow> (Inl e, w1)
      | (Inr u, w1) \<Rightarrow>
          (case action_description rt action of
             Inl e \<Rightarrow> (Inl e, w1)
           | Inr d \<Rightarrow> (Inr (), py_print (''SUCCESS: '' @ d) w1)))"

text \<open>One round of the loop: the \<open>try\<close> with its \<open>except Exception\<close> handler, which
  formats the description again and so can raise itself.\<close>

definition attempt_action :: "runtime \<Rightarrow> pyval \<Rightarrow> pydict \<Rightarrow> world \<Rightarrow> (py_exn + unit) \<times> world" where
  "attempt_action rt action result w =
     (case execute_one rt action result w of
        (Inr u, w1) \<Rightarrow> (Inr (), w1)
      | (Inl e, w1) \<Rightarrow>
          (case action_description rt action of
             Inl e2 \<Rightarrow> (Inl e2, w1)
           | Inr d \<Rightarrow>
               (Inr (), py_print (''ERROR: Failed to execute '' @ d @ '' - '' @ exn_str e) w1)))"

fun execute_loop :: "runtime \<Rightarrow> pyval list \<Rightarrow> pydict \<Rightarrow> world \<Rightarrow> (py_exn + unit) \<times> world" where
  "execute_loop rt [] result w = (Inr (), w)"
| "execute_loop rt (action # rest) result w =
     (case attempt_action rt action result w of
        (Inl e, w1) \<Rightarrow> (Inl e, w1)
      | (Inr u, w1) \<Rightarrow> execute_loop rt rest result w1)"

text \<open>The list comprehension of \<open>log_execution\<close>.\<close>

fun log_items :: "pyval list \<Rightarrow> py_exn + pyval list" where
  "log_items [] = Inr []"
| "log_items (action # rest) =
     (case py_getitem action ''type'' of
        Inl e \<Rightarrow> Inl e
      | Inr ty \<Rightarrow>
          (case py_getitem action ''description'' of
             Inl e \<Rightarrow> Inl e
           | Inr d \<Rightarrow>
               (case log_items rest of
                  Inl e \<Rightarrow> Inl e
                | Inr items \<Rightarrow> Inr (PDict [(''type'', ty), (''description'', d)] # items))))"

definition log_entry :: "string \<Rightarrow> pydict \<Rightarrow> nat \<Rightarrow> pyval list \<Rightarrow> pyval" where
  "log_entry stamp result n items =
     PDict [(''timestamp'', PStr stamp),
            (''sender'', dict_get result ''sender'' PNone),
            (''priority'', dict_get result ''priority'' PNone),
            (''category'', dict_get result ''category'' PNone),
            (''actions_executed'', PInt (int n)),
            (''actions'', PList items)]"

definition log_execution :: "runtime \<Rightarrow> pyval list \<Rightarrow> pydict \<Rightarrow> world \<Rightarrow> (py_exn + unit) \<times> world" where
  "log_execution rt actions result w =
     (let (t1, w1) = now w;
          log_file = VAULT_LOGS @ ''execution_'' @ strftime rt ''%Y%m%d_%H%M%S'' t1 @ ''.json'';
          (t2, w2) = now w1
      in case log_items actions of
           Inl e \<Rightarrow> (Inl e, w2)
         | Inr items \<Rightarrow>
             write_file log_file
               (Json (log_entry (isoformat rt t2) result (length actions) items)) w2)"

definition execute_banner :: "world \<Rightarrow> world" where
  "execute_banner w =
     py_print (replicate 60 CHR ''-'')
       (py_print ''  EXECUTING ACTIONS''
         (py_print (nl @ replicate 60 CHR ''-'') w))"

definition execute_actions :: "runtime \<Rightarrow> pyval list \<Rightarrow> pydict \<Rightarrow> world \<Rightarrow> (py_exn + unit) \<times> world" where
  "execute_actions rt actions result w =
     (case execute_loop rt actions result (execute_banner w) of
        (Inl e, w1) \<Rightarrow> (Inl e, w1)
      | (Inr u, w1) \<Rightarrow> log_execution rt actions result w1)"

text \<open>Observations on a world: the files written under the log directory, and the lines
  that report the outcome of an action.\<close>

definition audit_entries :: "world \<Rightarrow> (string \<times> file_content) list" where
  "audit_entries w = filter (\<lambda>pc. prefix VAULT_LOGS (fst pc)) (written w)"

definition is_report :: "console_event \<Rightarrow> bool" where
  "is_report ev =
     (case ev of
        Printed s \<Rightarrow> prefix ''SUCCESS: '' s \<or> prefix ''ERROR: Failed to execute '' s
      | _ \<Rightarrow> False)"

definition reports :: "world \<Rightarrow> console_event list" where
  "reports w = filter is_report (stdout w)"

text \<open>The report of an action: success, or the failure that was caught, each with the
  action's description.\<close>

definition reported_as :: "runtime \<Rightarrow> pyval \<Rightarrow> console_event \<Rightarrow> bool" where
  "reported_as rt action ev \<longleftrightarrow>
     (\<exists>d. action_description rt action = Inr d
          \<and> (ev = Printed (''SUCCESS: '' @ d)
               \<or> (\<exists>e. ev = Printed (''ERROR: Failed to execute '' @ d @ '' - '' @ exn_str e))))"

text \<open>An action that can be reported and logged: it has a type and a description.\<close>

definition loggable :: "pyval \<Rightarrow> bool" where
  "loggable action =
     ((case py_getitem action ''type'' of Inl e \<Rightarrow> False | Inr t \<Rightarrow> True)
      \<and> (case py_getitem action ''description'' of Inl e \<Rightarrow> False | Inr d \<Rightarrow> True))"


text \<open>The classification as the specification words it: a stripped empty input and any
  case-insensitive spelling of "yes" approve, everything else rejects.\<close>

definition spec_approves :: "string \<Rightarrow> bool" where
  "spec_approves line = (strip line = [] \<or> lower (strip line) = ''yes'')"

text \<open>The decisions of a run: action \<open>k\<close> is kept when input line \<open>k\<close> approves.\<close>

definition decided :: "pyval list \<Rightarrow> string list \<Rightarrow> pyval list" where
  "decided actions lines = map fst (filter (\<lambda>al. approves (snd al)) (zip actions lines))"

definition presentable :: "runtime \<Rightarrow> pyval \<Rightarrow> bool" where
  "presentable rt action =
     ((case action_description rt action of Inl e \<Rightarrow> False | Inr d \<Rightarrow> True)
      \<and> (case action_detail rt action of Inl e \<Rightarrow> False | Inr l \<Rightarrow> True))"


definition prompts :: "world \<Rightarrow> nat" where
  "prompts w =
     length (filter (\<lambda>ev. case ev of Prompted p \<Rightarrow> True | _ \<Rightarrow> False) (stdout w))"

text \<open>What a step leaves alone: \<open>frame\<close> is about everything but the console,
  \<open>quiet\<close> adds that no outcome was reported.\<close>

definition frame :: "world \<Rightarrow> world \<Rightarrow> bool" where
  "frame w w' \<longleftrightarrow>
     stdin w' = stdin w \<and> fs_error w' = fs_error w \<and> clock w' = clock w
     \<and> audit_entries w' = audit_entries w \<and> prompts w' = prompts w \<and> renamed w' = renamed w"

definition quiet :: "world \<Rightarrow> world \<Rightarrow> bool" where
  "quiet w w' \<longleftrightarrow> frame w w' \<and> reports w' = reports w"

text \<open>The entry the audit log keeps for an action.\<close>

definition logged_as :: "pyval \<Rightarrow> pyval \<Rightarrow> bool" where
  "logged_as action item \<longleftrightarrow>
     (\<exists>ty d. py_getitem action ''type'' = Inr ty \<and> py_getitem action ''description'' = Inr d
            \<and> item = PDict [(''type'', ty), (''description'', d)])"

section \<open>More text primitives\<close>

text \<open>\<open>sub in s\<close> is \<^const>\<open>sublist\<close>; \<open>s.startswith(p)\<close> is \<^const>\<open>prefix\<close>.
  \<open>s.count(sub)\<close> counts occurrences from the left without overlap; after a match the
  next \<open>length sub - 1\<close> positions are skipped.\<close>

fun count_from :: "string \<Rightarrow> nat \<Rightarrow> string \<Rightarrow> nat" where
  "count_from sub skip [] = (if sub = [] then 1 else 0)"
| "count_from sub skip (c # cs) =
     (if sub = [] then Suc (count_from sub 0 cs)
      else if 0 < skip then count_from sub (skip - 1) cs
      else if prefix sub (c # cs) then Suc (count_from sub (length sub - 1) cs)
      else count_from sub 0 cs)"

definition str_count :: "string \<Rightarrow> string \<Rightarrow> nat" where
  "str_count s sub = count_from sub 0 s"

text \<open>\<open>s.split(c)\<close> for a single character \<open>c\<close>: the pieces between the separators,
  empty ones included.\<close>

fun split_on :: "char \<Rightarrow> string \<Rightarrow> string list" where
  "split_on c [] = [[]]"
| "split_on c (x # xs) =
     (if x = c then [] # split_on c xs
      else (case split_on c xs of
              [] \<Rightarrow> [[x]]
            | w # ws \<Rightarrow> (x # w) # ws))"

text \<open>Splitting at maximal runs of separator characters (the flag says that the
  character before was a separator): \<open>re.split\<close> with a character class followed by
  \<open>+\<close>.\<close>

fun split_runs :: "(char \<Rightarrow> bool) \<Rightarrow> bool \<Rightarrow> string \<Rightarrow> string list" where
  "split_runs p b [] = [[]]"
| "split_runs p b (x # xs) =
     (if p x then (if b then split_runs p True xs else [] # split_runs p True xs)
      else (case split_runs p False xs of
              [] \<Rightarrow> [[x]]
            | w # ws \<Rightarrow> (x # w) # ws))"

text \<open>\<open>s.split()\<close>: the words between runs of whitespace.\<close>

definition split_ws :: "string \<Rightarrow> string list" where
  "split_ws s = filter (\<lambda>w. w \<noteq> []) (split_runs py_isspace False s)"

fun join :: "string \<Rightarrow> string list \<Rightarrow> string" where
  "join sep [] = []"
| "join sep [x] = x"
| "join sep (x # y # ys) = x @ sep @ join sep (y # ys)"

text \<open>\<open>s.replace(old, '')\<close> for a non-empty \<open>old\<close>.\<close>

fun remove_from :: "string \<Rightarrow> nat \<Rightarrow> string \<Rightarrow> string" where
  "remove_from old skip [] = []"
| "remove_from old skip (c # cs) =
     (if 0 < skip then remove_from old (skip - 1) cs
      else if prefix old (c # cs) then remove_from old (length old - 1) cs
      else c # remove_from old 0 cs)"

definition any_in :: "string list \<Rightarrow> string \<Rightarrow> bool" where
  "any_in keywords s = list_ex (\<lambda>k. sublist k s) keywords"

definition count_in :: "string list \<Rightarrow> string \<Rightarrow> nat" where
  "count_in keywords s = length (filter (\<lambda>k. sublist k s) keywords)"

section \<open>The analyzers (\<open>skills/\<close>), in structured mode\<close>

subsection \<open>\<open>generate_summary\<close>\<close>

text \<open>Of the four prefixes that mark a line as important, the third contains the code
  point U+20AC and cannot start a line of the text modelled here.\<close>

definition important_line :: "string \<Rightarrow> bool" where
  "important_line line =
     (50 < length line \<or> list_ex (\<lambda>p. prefix p line) [''-'', ''*'', ''#''])"

definition summary_lines_of :: "string \<Rightarrow> string list" where
  "summary_lines_of content =
     filter (\<lambda>line. line \<noteq> [] \<and> important_line line) (map strip (split_on CHR 0x0A content))"

definition key_points_marked :: "string \<Rightarrow> string list" where
  "key_points_marked content =
     map (\<lambda>line. ''- '' @ line)
       (filter (\<lambda>line. line \<noteq> []
                  \<and> any_in [''important'', ''urgent'', ''key'', ''critical'', ''main''] (lower line))
          (map strip (split_on CHR 0x0A content)))"

definition generate_summary :: "runtime \<Rightarrow> string \<Rightarrow> pydict" where
  "generate_summary rt content =
     (let summary_lines = summary_lines_of content;
          key_points0 = key_points_marked content;
          key_points =
            (if key_points0 = []
             then map (\<lambda>line. ''- '' @ line)
                    (take 3 (sort_key (\<lambda>line. - int (length line)) summary_lines))
             else key_points0);
          summary_text =
            (if summary_lines = []
             then (let words = split_ws content
                   in join '' '' (take 50 words) @ (if 50 < length words then ''...'' else []))
             else join '' '' (take 3 summary_lines));
          words = split_ws (lower content);
          common_words = [''the'', ''a'', ''an'', ''and'', ''or'', ''but'', ''in'', ''on'', ''at'',
                          ''to'', ''for'', ''of'', ''with'', ''by''];
          keywords = take 5 (filter (\<lambda>w. 4 < length w \<and> w \<notin> set common_words)
                               (set_order rt words))
      in [(''summary'', PStr summary_text),
          (''key_points'', PList (map (\<lambda>kp. PStr (remove_from ''- '' 0 kp)) key_points)),
          (''keywords'', PList (map PStr keywords))])"

subsection \<open>\<open>detect_priority\<close>\<close>

definition urgent_indicators :: "string list" where
  "urgent_indicators =
     [''urgent'', ''asap'', ''immediately'', ''right now'', ''today'', ''within hours'',
      ''crucial'', ''critical'', ''emergency'', ''deadline'', ''cannot wait'',
      ''high priority'', ''top priority'', ''priority 1'', ''time sensitive'']"

definition low_indicators :: "string list" where
  "low_indicators =
     [''whenever'', ''whenever convenient'', ''take your time'', ''optional'',
      ''nice to have'', ''eventually'', ''someday'', ''not urgent'', ''whenever possible'']"

text \<open>Float arithmetic: a literal and every operation give the rounding of the exact
  value; comparisons, \<open>min\<close> and \<open>max\<close> are exact.\<close>

definition priority_label :: "nat \<Rightarrow> nat \<Rightarrow> nat \<Rightarrow> string" where
  "priority_label urgent_count low_count time_sensitive_count =
     (let priority =
            (if low_count < urgent_count then ''urgent''
             else if urgent_count < low_count then ''low''
             else ''normal'')
      in if 2 < time_sensitive_count \<and> priority = ''normal'' then ''normal_urgent''
         else priority)"

definition priority_confidence :: "runtime \<Rightarrow> nat \<Rightarrow> nat \<Rightarrow> nat \<Rightarrow> rat" where
  "priority_confidence rt urgent_count low_count time_sensitive_count =
     (let confidence =
            (if low_count < urgent_count
             then min (fround rt (fround rt (8 / 10)
                         + fround rt (of_nat urgent_count * fround rt (5 / 100))))
                      1
             else if urgent_count < low_count
             then min (fround rt (fround rt (6 / 10)
                         + fround rt (of_nat low_count * fround rt (5 / 100))))
                      (fround rt (9 / 10))
             else fround rt (6 / 10))
      in if 2 < time_sensitive_count \<and> \<not> low_count < urgent_count \<and> \<not> urgent_count < low_count
         then fround rt (7 / 10)
         else confidence)"

definition priority_map :: "(string \<times> string) list" where
  "priority_map =
     [(''urgent'', ''HIGH''), (''normal_urgent'', ''MEDIUM''), (''normal'', ''MEDIUM''),
      (''low'', ''LOW'')]"

definition detect_priority :: "runtime \<Rightarrow> string \<Rightarrow> pydict" where
  "detect_priority rt content =
     (let content_lower = lower content;
          urgent_count = count_in urgent_indicators content_lower;
          low_count = count_in low_indicators content_lower;
          words = split_ws content;
          time_sensitive_words = [''tomorrow'', ''meeting'', ''due'', ''report'', ''review''];
          time_sensitive_count =
            length (filter (\<lambda>word. lower word \<in> set time_sensitive_words) words);
          priority = priority_label urgent_count low_count time_sensitive_count
      in [(''priority'',
             PStr (case map_of priority_map priority of None \<Rightarrow> ''MEDIUM'' | Some p \<Rightarrow> p)),
          (''confidence'',
             PFloat (priority_confidence rt urgent_count low_count time_sensitive_count)),
          (''reasoning'',
             PStr (''Found '' @ show_nat urgent_count @ '' urgent indicators, ''
                   @ show_nat low_count @ '' low priority indicators, ''
                   @ show_nat time_sensitive_count @ '' time-sensitive terms''))])"

subsection \<open>\<open>categorize_content\<close>\<close>

definition categories :: "(string \<times> string list) list" where
  "categories =
     [(''work'',
        [''meeting'', ''colleague'', ''boss'', ''company'', ''project'', ''client'', ''deadline'',
         ''report'', ''presentation'', ''office'', ''team'', ''department'', ''employee'',
         ''employer'', ''schedule'', ''calendar'', ''work'', ''business'', ''corporate'',
         ''professional'', ''performance'', ''review'', ''task'', ''assignment'', ''agenda'',
         ''conference'']),
      (''personal'',
        [''family'', ''friend'', ''parent'', ''child'', ''wife'', ''husband'', ''spouse'',
         ''relative'', ''birthday'', ''celebration'', ''vacation'', ''holiday'', ''weekend'',
         ''dinner'', ''party'', ''social'', ''personal'', ''relationship'', ''home'', ''hobby'',
         ''leisure'', ''fun'']),
      (''study'',
        [''lecture'', ''professor'', ''student'', ''assignment'', ''homework'', ''exam'', ''test'',
         ''course'', ''class'', ''school'', ''university'', ''college'', ''education'',
         ''learning'', ''research'', ''thesis'', ''paper'', ''study'', ''academic'', ''grade'',
         ''degree'', ''campus'']),
      (''finance'',
        [''money'', ''payment'', ''bill'', ''invoice'', ''bank'', ''account'', ''credit'', ''debit'',
         ''budget'', ''expense'', ''investment'', ''loan'', ''tax'', ''refund'', ''fee'', ''cost'',
         ''price'', ''financial'', ''finances'', ''cash'', ''salary'', ''income'', ''revenue''])]"

definition category_scores :: "string \<Rightarrow> (string \<times> nat) list" where
  "category_scores content_lower =
     map (\<lambda>ck. (fst ck, sum_list (map (str_count content_lower) (snd ck)))) categories"

text \<open>\<open>max(scores, key=scores.get)\<close>: the first key that has the greatest score.\<close>

fun max_key :: "(string \<times> nat) list \<Rightarrow> string \<times> nat \<Rightarrow> string \<times> nat" where
  "max_key [] best = best"
| "max_key (kv # rest) best = max_key rest (if snd best < snd kv then kv else best)"

definition category_choice :: "runtime \<Rightarrow> (string \<times> nat) list \<Rightarrow> nat \<Rightarrow> string \<times> rat" where
  "category_choice rt scores total_words =
     (let (max_category, max_score) = max_key (tl scores) (hd scores);
          confidence =
            (if 0 < total_words
             then min (fround rt (of_nat max_score
                         / max (fround rt (of_nat total_words * fround rt (1 / 10))) 1))
                      1
             else fround rt (5 / 10))
      in if max_score = 0 then (''other'', fround rt (3 / 10))
         else if confidence < fround rt (2 / 10)
         then (let other_score = fround rt (of_nat (sum_list (map snd scores))
                                             / of_nat (length scores))
               in if of_nat max_score < fround rt (other_score * (3 / 2))
                  then (''other'', fround rt (4 / 10))
                  else (max_category, confidence))
         else (max_category, confidence))"

definition categorize_content :: "runtime \<Rightarrow> string \<Rightarrow> pydict" where
  "categorize_content rt content =
     (let content_lower = lower content;
          scores = category_scores content_lower;
          max_score = snd (max_key (tl scores) (hd scores));
          total_words = length (split_ws content);
          (max_category, confidence) = category_choice rt scores total_words;
          scores_str = join '', '' (map (\<lambda>cs. fst cs @ '': '' @ show_nat (snd cs)) scores)
      in [(''category'', PStr max_category),
          (''confidence'', PFloat confidence),
          (''reasoning'',
             PStr (''Found '' @ show_nat max_score @ '' category-specific keywords. Scores: ''
                   @ scores_str))])"


subsection \<open>\<open>suggest_reply\<close>\<close>

definition message_type_of :: "string \<Rightarrow> string" where
  "message_type_of content_lower =
     (if any_in [''hi'', ''hello'', ''hey'', ''good morning'', ''good afternoon'', ''good evening'']
           content_lower then ''greeting''
      else if any_in [''can you'', ''could you'', ''please'', ''need you to'', ''would you'',
                      ''request''] content_lower then ''request''
      else if any_in [''issue'', ''problem'', ''error'', ''bug'', ''broken'', ''not working'',
                      ''fix''] content_lower then ''problem''
      else if any_in [''urgent'', ''asap'', ''immediately'', ''now''] content_lower then ''urgent''
      else if any_in [''question'', ''ask'', ''wonder'', ''?''] content_lower then ''question''
      else if any_in [''meeting'', ''appointment'', ''schedule'', ''when'', ''time'']
                content_lower then ''meeting''
      else if any_in [''thank'', ''thanks'', ''appreciate''] content_lower then ''appreciation''
      else if any_in [''congrat'', ''well done'', ''great job''] content_lower then ''compliment''
      else ''general'')"

definition suggestions_for :: "string \<Rightarrow> string list" where
  "suggestions_for message_type =
     (if message_type = ''greeting'' then
        [''Hello! How can I help you today?'',
         ''Hi! Thanks for reaching out. What can I assist you with?'',
         ''Hey! Good to hear from you. What do you need?'']
      else if message_type = ''problem'' then
        [''I understand you're experiencing an issue. Let me look into this and help you resolve it.'',
         ''Thanks for reporting this problem. I'll investigate and get back to you with a solution.'',
         ''I see there's an issue. Can you provide more details so I can help fix it?'']
      else if message_type = ''request'' then
        [''I'd be happy to help with that. Let me take care of it for you.'',
         ''Sure, I can assist with this request. I'll get started right away.'',
         ''Absolutely, I'll handle this for you. Give me a moment to process it.'']
      else if message_type = ''urgent'' then
        [''I acknowledge receipt of your urgent message. I will prioritize addressing this and get back to you shortly.'',
         ''Understood. I'm looking into this matter right away and will provide an update within the next hour.'',
         ''I've received your urgent request and am treating it with the highest priority.'']
      else if message_type = ''question'' then
        [''Thank you for your question. Let me look into this and get back to you with a detailed response.'',
         ''I understand you have a question. I'll review the details and provide an answer soon.'',
         ''Thanks for reaching out with this question. I need to gather some information before responding.'']
      else if message_type = ''meeting'' then
        [''I've noted the meeting request. I'll check my calendar and confirm my availability.'',
         ''Thank you for the meeting invitation. I'll review my schedule and respond shortly.'',
         ''I acknowledge the meeting request. I'll confirm my attendance once I've checked my availability.'']
      else if message_type = ''appreciation'' then
        [''Thank you for your kind words. I appreciate the recognition.'',
         ''I'm grateful for your appreciation. Thank you for taking the time to share this feedback.'',
         ''Your appreciation means a lot. Thank you for the positive feedback.'']
      else if message_type = ''compliment'' then
        [''Thank you for the compliment. I appreciate the recognition.'',
         ''I'm honored by your kind words. Thank you for taking the time to acknowledge this.'',
         ''Your feedback is much appreciated. Thank you for the encouraging words.'']
      else
        [''Thank you for your message. I have received it and will respond shortly.'',
         ''I acknowledge receipt of your message. I'm reviewing the details and will get back to you soon.'',
         ''Thank you for sharing this information. I'll process it and provide a response.'',
         ''I've received your message and understand the request. I'll address this as soon as possible.'',
         ''Thanks for the update. I'm reviewing the information and will follow up shortly.''])"

definition suggest_reply :: "string \<Rightarrow> pyval \<Rightarrow> pydict" where
  "suggest_reply content sender =
     (let content_lower = lower content;
          message_type = message_type_of content_lower;
          suggestions = suggestions_for message_type
      in [(''message_type'', PStr message_type),
          (''suggestions'', PList (map PStr (take 3 suggestions))),
          (''sender'', sender),
          (''raw_suggestions'', PList (map PStr suggestions))])"

subsection \<open>\<open>extract_tasks\<close>\<close>

text \<open>The patterns passed to \<open>re.search\<close>; \<open>bs\<close> is the backslash.\<close>

definition bs :: string where
  "bs = [CHR 0x5C]"

definition task_patterns :: "string list" where
  "task_patterns =
     [bs @ ''b(please|need to|must|have to|should|could)'' @ bs
        @ ''s+(do|complete|finish|send|review|check|prepare|submit|attend)'' @ bs @ ''b'',
      bs @ ''b(to do|todo|to-do|action item|next step|task|assignment)'' @ bs @ ''b'',
      bs @ ''b(by'' @ bs @ ''s+'' @ bs @ ''w+'' @ bs @ ''s+'' @ bs
        @ ''d{1,2}(?:st|nd|rd|th)?|before|after|when|tomorrow|today|later|ASAP|urgent)''
        @ bs @ ''b'',
      ''(call|email|contact|reach out|respond|reply|follow up|remind|inform|notify)'',
      ''(buy|purchase|order|get|obtain|arrange|schedule|book|setup|configure|install|update|change)'']"

definition task_indicators :: "string list" where
  "task_indicators =
     [''action'', ''todo'', ''task'', ''complete'', ''finish'', ''do'', ''perform'', ''execute'',
      ''attend'', ''review'', ''read'', ''watch'', ''learn'', ''study'', ''practice'',
      ''buy'', ''get'', ''purchase'', ''order'', ''request'', ''apply'', ''register'',
      ''make'', ''create'', ''draft'', ''write'', ''edit'', ''proofread'', ''submit'',
      ''organize'', ''arrange'', ''prepare'', ''plan'', ''think about'', ''decide'']"

text \<open>The two substitutions that clean a line.  The first removes a leading \<open>-\<close> or
  \<open>*\<close> and the whitespace after it (the pattern's third alternative, the bullet U+2022,
  cannot occur in the text modelled here); the second removes a leading number, its dot
  and the whitespace after it.\<close>

definition strip_bullet :: "string \<Rightarrow> string" where
  "strip_bullet s =
     (case s of
        [] \<Rightarrow> []
      | c # cs \<Rightarrow> if c = CHR ''-'' \<or> c = CHR ''*'' then dropWhile py_isspace cs else s)"

definition is_digit :: "char \<Rightarrow> bool" where
  "is_digit c = (48 \<le> (of_char c :: nat) \<and> (of_char c :: nat) \<le> 57)"

definition strip_number :: "string \<Rightarrow> string" where
  "strip_number s =
     (let rest = dropWhile is_digit s
      in if takeWhile is_digit s \<noteq> [] \<and> prefix ''.'' rest
         then dropWhile py_isspace (tl rest) else s)"

definition is_task_line :: "runtime \<Rightarrow> string \<Rightarrow> bool" where
  "is_task_line rt line_clean =
     (let matches_pattern = list_ex (\<lambda>pattern. re_search rt pattern line_clean) task_patterns;
          has_indicator = any_in task_indicators (lower line_clean);
          has_deadline =
            re_search rt ''(by|before|until|due|tomorrow|today|tonight|week|month|ASAP)'' line_clean
      in matches_pattern \<or> has_indicator \<or> has_deadline)"

definition line_tasks :: "runtime \<Rightarrow> string \<Rightarrow> string list" where
  "line_tasks rt content =
     map (\<lambda>line_clean. strip_number (strip_bullet line_clean))
       (filter (\<lambda>line_clean. line_clean \<noteq> [] \<and> \<not> prefix ''#'' line_clean
                   \<and> is_task_line rt line_clean)
          (map strip (split_on CHR 0x0A content)))"

definition is_task_sentence :: "runtime \<Rightarrow> string \<Rightarrow> bool" where
  "is_task_sentence rt sentence =
     (10 < length sentence
      \<and> any_in task_indicators (lower sentence)
      \<and> re_search rt ''(by|before|tomorrow|today|due)'' sentence)"

text \<open>The second loop adds the cleaned sentences that are not in the list yet.\<close>

fun sentence_tasks :: "runtime \<Rightarrow> string list \<Rightarrow> string list \<Rightarrow> string list" where
  "sentence_tasks rt [] potential_tasks = potential_tasks"
| "sentence_tasks rt (s # rest) potential_tasks =
     (let sentence = strip s
      in if is_task_sentence rt sentence
         then (let cleaned_sentence = strip_bullet sentence
               in if cleaned_sentence \<in> set potential_tasks
                  then sentence_tasks rt rest potential_tasks
                  else sentence_tasks rt rest (potential_tasks @ [cleaned_sentence]))
         else sentence_tasks rt rest potential_tasks)"

definition is_sentence_end :: "char \<Rightarrow> bool" where
  "is_sentence_end c = (c = CHR ''.'' \<or> c = CHR ''!'' \<or> c = CHR ''?'')"

definition potential_tasks_of :: "runtime \<Rightarrow> string \<Rightarrow> string list" where
  "potential_tasks_of rt content =
     sentence_tasks rt (split_runs is_sentence_end False content) (line_tasks rt content)"

definition task_priority :: "string \<Rightarrow> string" where
  "task_priority task =
     (let task_lower = lower task
      in if any_in [''urgent'', ''asap'', ''immediately'', ''critical''] task_lower then ''urgent''
         else if any_in [''important'', ''priority'', ''must''] task_lower then ''high''
         else ''normal'')"

definition structured_task :: "nat \<Rightarrow> string \<Rightarrow> pyval" where
  "structured_task i task =
     PDict [(''title'', PStr (take 100 task)),
            (''description'', PStr task),
            (''priority'', PStr (task_priority task)),
            (''index'', PInt (int i))]"

definition extract_tasks :: "runtime \<Rightarrow> string \<Rightarrow> pydict" where
  "extract_tasks rt content =
     (let potential_tasks = potential_tasks_of rt content;
          structured_tasks =
            map (\<lambda>it. structured_task (fst it) (snd it)) (enumerate 0 potential_tasks)
      in [(''tasks'', PList structured_tasks),
          (''count'', PInt (int (length structured_tasks))),
          (''raw_tasks'', PList (map PStr potential_tasks))])"

section \<open>Tool registry (\<open>agent/tools.py\<close>)\<close>

text \<open>
  \<open>tool_func(**arguments)\<close>: the arguments must be a mapping, every key must name a
  parameter, and \<open>content\<close> must be given.  The messages are the interpreter's.
\<close>

definition bind_kwargs :: "string \<Rightarrow> string list \<Rightarrow> pyval \<Rightarrow> py_exn + pydict" where
  "bind_kwargs fname params arguments =
     (case arguments of
        PDict kwargs \<Rightarrow>
          (case find (\<lambda>kv. fst kv \<notin> set params) kwargs of
             Some kv \<Rightarrow>
               Inl (Exn ''TypeError''
                 (fname @ ''() got an unexpected keyword argument ''
                    @ [CHR 0x27] @ fst kv @ [CHR 0x27]))
           | None \<Rightarrow>
               (if map_of kwargs ''content'' = None
                then Inl (Exn ''TypeError''
                       (fname @ ''() missing 1 required positional argument: ''
                          @ [CHR 0x27] @ ''content'' @ [CHR 0x27]))
                else Inr kwargs))
      | _ \<Rightarrow>
          Inl (Exn ''TypeError''
            (''agent.tools.'' @ fname @ ''() argument after ** must be a mapping, not ''
               @ type_name arguments)))"

text \<open>The first thing each analyzer does with its content is call a \<open>str\<close> method on it
  (\<open>split\<close> or \<open>lower\<close>).\<close>

definition as_text :: "string \<Rightarrow> pyval \<Rightarrow> py_exn + string" where
  "as_text method content =
     (case content of
        PStr s \<Rightarrow> Inr s
      | _ \<Rightarrow> Inl (Exn ''AttributeError''
               ([CHR 0x27] @ type_name content @ [CHR 0x27] @ '' object has no attribute ''
                  @ [CHR 0x27] @ method @ [CHR 0x27])))"

definition content_of :: "string \<Rightarrow> string \<Rightarrow> string list \<Rightarrow> pyval \<Rightarrow> py_exn + string" where
  "content_of fname method params arguments =
     (case bind_kwargs fname params arguments of
        Inl e \<Rightarrow> Inl e
      | Inr kwargs \<Rightarrow> as_text method (dict_get kwargs ''content'' PNone))"

definition summarizer_tool :: "runtime \<Rightarrow> pyval \<Rightarrow> py_exn + pydict" where
  "summarizer_tool rt arguments =
     (case content_of ''summarizer_tool'' ''split'' [''content''] arguments of
        Inl e \<Rightarrow> Inl e
      | Inr content \<Rightarrow> Inr (generate_summary rt content))"

definition reply_suggester_tool :: "runtime \<Rightarrow> pyval \<Rightarrow> py_exn + pydict" where
  "reply_suggester_tool rt arguments =
     (case bind_kwargs ''reply_suggester_tool'' [''content'', ''sender''] arguments of
        Inl e \<Rightarrow> Inl e
      | Inr kwargs \<Rightarrow>
          (case as_text ''lower'' (dict_get kwargs ''content'' PNone) of
             Inl e \<Rightarrow> Inl e
           | Inr content \<Rightarrow> Inr (suggest_reply content (dict_get kwargs ''sender'' PNone))))"

definition task_extractor_tool :: "runtime \<Rightarrow> pyval \<Rightarrow> py_exn + pydict" where
  "task_extractor_tool rt arguments =
     (case content_of ''task_extractor_tool'' ''split'' [''content''] arguments of
        Inl e \<Rightarrow> Inl e
      | Inr content \<Rightarrow> Inr (extract_tasks rt content))"

definition priority_detector_tool :: "runtime \<Rightarrow> pyval \<Rightarrow> py_exn + pydict" where
  "priority_detector_tool rt arguments =
     (case content_of ''priority_detector_tool'' ''lower'' [''content''] arguments of
        Inl e \<Rightarrow> Inl e
      | Inr content \<Rightarrow> Inr (detect_priority rt content))"

definition categorizer_tool :: "runtime \<Rightarrow> pyval \<Rightarrow> py_exn + pydict" where
  "categorizer_tool rt arguments =
     (case content_of ''categorizer_tool'' ''lower'' [''content''] arguments of
        Inl e \<Rightarrow> Inl e
      | Inr content \<Rightarrow> Inr (categorize_content rt content))"

text \<open>The registry, in the order of the source.\<close>

definition TOOLS :: "(string \<times> (runtime \<Rightarrow> pyval \<Rightarrow> py_exn + pydict)) list" where
  "TOOLS =
     [(''summarizer'', summarizer_tool),
      (''reply_suggester'', reply_suggester_tool),
      (''task_extractor'', task_extractor_tool),
      (''priority_detector'', priority_detector_tool),
      (''categorizer'', categorizer_tool)]"

definition execute_tool :: "runtime \<Rightarrow> string \<Rightarrow> pyval \<Rightarrow> pydict" where
  "execute_tool rt tool_name arguments =
     (case map_of TOOLS tool_name of
        None \<Rightarrow> [(''error'', PStr (''Unknown tool: '' @ tool_name))]
      | Some tool_func \<Rightarrow>
          (case tool_func rt arguments of
             Inl e \<Rightarrow> [(''error'', PStr (exn_str e))]
           | Inr result \<Rightarrow> result))"


section \<open>Agent loop (\<open>agent/brain.py\<close>)\<close>

text \<open>What the model provider returns: a tool call has an identifier, a tool name and
  JSON text for the arguments; a message has optional text and the tool calls it asks
  for (none is the empty list).\<close>

record tool_call =
  tc_id :: string
  tc_name :: string
  tc_arguments :: string

record llm_message =
  msg_content :: "string option"
  msg_tool_calls :: "tool_call list"

text \<open>The transcript: the system and user messages, then for each executed tool call the
  assistant's record of the call and the tool's result under the call's identifier.\<close>

datatype chat_msg =
    SystemMsg string
  | UserMsg string
  | AssistantCall tool_call
  | ToolMsg string pydict

text \<open>A chat completion: the transcript and whether the tool catalog is attached go in;
  the first choice's message comes out, or an exception (transport failure, provider
  error, malformed response).\<close>

type_synonym chat_client = "chat_msg list \<Rightarrow> bool \<Rightarrow> py_exn + llm_message"

definition SYSTEM_PROMPT :: string where
  "SYSTEM_PROMPT = concat (map (\<lambda>l. l @ nl)
     [''You are a Personal AI Employee (FTE Agent) that helps analyze messages and suggest actions.'',
      '''',
      ''Your role:'',
      ''1. Analyze incoming messages thoroughly'',
      ''2. Use available tools to extract information'',
      ''3. Provide clear, actionable insights'',
      ''4. Suggest appropriate responses and actions'',
      '''',
      ''Available tools:'',
      ''- summarizer: Create concise summaries of messages'',
      ''- reply_suggester: Suggest appropriate replies'',
      ''- task_extractor: Extract actionable tasks'',
      ''- priority_detector: Determine message priority'',
      ''- categorizer: Categorize message type'',
      '''',
      ''Always:'',
      ''- Be concise and clear'',
      ''- Focus on actionable insights'',
      ''- Prioritize user's time and attention'',
      ''- Suggest only relevant actions'',
      '''',
      ''Output format:'',
      ''Provide a structured analysis with:'',
      ''- Summary of the message'',
      ''- Priority level (HIGH/MEDIUM/LOW)'',
      ''- Category (work/personal/study/finance/other)'',
      ''- Suggested reply (if appropriate)'',
      ''- Extracted tasks (if any)'',
      ''- Recommended actions''])"

text \<open>\<open>ANALYSIS_PROMPT.format(message=message)\<close>.\<close>

definition analysis_prompt :: "string \<Rightarrow> string" where
  "analysis_prompt message =
     ''Analyze this message and provide a comprehensive assessment:'' @ nl @ nl
     @ ''Message:'' @ nl
     @ message @ nl @ nl
     @ concat (map (\<lambda>l. l @ nl)
        [''Use the available tools to:'',
         ''1. Summarize the key points'',
         ''2. Detect the priority level'',
         ''3. Categorize the message'',
         ''4. Suggest an appropriate reply'',
         ''5. Extract any actionable tasks'',
         '''',
         ''Provide a structured response that helps the user quickly understand and act on this message.''])"

text \<open>The loop over the requested tool calls.  Parsing the arguments can raise; nothing
  in the loop catches it.\<close>

fun run_tool_calls ::
  "runtime \<Rightarrow> tool_call list \<Rightarrow> tool_results \<Rightarrow> chat_msg list
     \<Rightarrow> py_exn + (tool_results \<times> chat_msg list)" where
  "run_tool_calls rt [] tool_results messages = Inr (tool_results, messages)"
| "run_tool_calls rt (tc # rest) tool_results messages =
     (case json_loads rt (tc_arguments tc) of
        Inl e \<Rightarrow> Inl e
      | Inr tool_args \<Rightarrow>
          (let result = execute_tool rt (tc_name tc) tool_args
           in run_tool_calls rt rest
                (dict_set tool_results (tc_name tc) result)
                (messages @ [AssistantCall tc, ToolMsg (tc_id tc) result])))"

text \<open>The body of the \<open>try\<close> in \<open>analyze_message\<close>.\<close>

definition analyze_message_try ::
  "runtime \<Rightarrow> chat_client \<Rightarrow> string \<Rightarrow> string option \<Rightarrow> py_exn + pydict" where
  "analyze_message_try rt client message sender =
     (let user_prompt = analysis_prompt message;
          messages = [SystemMsg SYSTEM_PROMPT, UserMsg user_prompt]
      in case client messages True of
           Inl e \<Rightarrow> Inl e
         | Inr message_obj \<Rightarrow>
             if msg_tool_calls message_obj \<noteq> []
             then (case run_tool_calls rt (msg_tool_calls message_obj) [] messages of
                     Inl e \<Rightarrow> Inl e
                   | Inr (tool_results, messages2) \<Rightarrow>
                       (case client messages2 False of
                          Inl e \<Rightarrow> Inl e
                        | Inr final_response \<Rightarrow>
                            structure_output rt message sender tool_results
                              (msg_content final_response)))
             else structure_output rt message sender [] (msg_content message_obj))"

definition error_payload :: "py_exn \<Rightarrow> string \<Rightarrow> string option \<Rightarrow> pydict" where
  "error_payload e message sender =
     [(''error'', PStr (exn_str e)),
      (''message'', PStr message),
      (''sender'', opt_str sender)]"

definition analyze_message ::
  "runtime \<Rightarrow> chat_client \<Rightarrow> string \<Rightarrow> string option \<Rightarrow> pydict" where
  "analyze_message rt client message sender =
     (case analyze_message_try rt client message sender of
        Inl e \<Rightarrow> error_payload e message sender
      | Inr out \<Rightarrow> out)"

section \<open>Direct analysis (\<open>main.py\<close>)\<close>

text \<open>\<open>task if isinstance(task, str) else task.get('title', str(task))\<close>.\<close>

definition task_title_of :: "runtime \<Rightarrow> pyval \<Rightarrow> py_exn + pyval" where
  "task_title_of rt task =
     (case task of
        PStr s \<Rightarrow> Inr task
      | PDict d \<Rightarrow> Inr (dict_get d ''title'' (PStr (py_str rt task)))
      | _ \<Rightarrow> Inl (Exn ''AttributeError''
               ([CHR 0x27] @ type_name task @ [CHR 0x27] @ '' object has no attribute ''
                  @ [CHR 0x27] @ ''get'' @ [CHR 0x27])))"

fun direct_task_actions :: "runtime \<Rightarrow> pyval \<Rightarrow> pyval list \<Rightarrow> py_exn + pyval list" where
  "direct_task_actions rt priority [] = Inr []"
| "direct_task_actions rt priority (task # rest) =
     (case task_title_of rt task of
        Inl e \<Rightarrow> Inl e
      | Inr task_title \<Rightarrow>
          (case direct_task_actions rt priority rest of
             Inl e \<Rightarrow> Inl e
           | Inr acts \<Rightarrow> Inr (create_task_action (fmt rt task_title) task_title priority # acts)))"

definition analyze_with_skills :: "runtime \<Rightarrow> string \<Rightarrow> string \<Rightarrow> py_exn + pydict" where
  "analyze_with_skills rt message sender =
     (let summary_result = generate_summary rt message;
          priority_result = detect_priority rt message;
          category_result = categorize_content rt message;
          reply_result = suggest_reply message (PStr sender);
          tasks_result = extract_tasks rt message
      in case (if truthy (dict_get reply_result ''suggestions'' PNone)
               then py_first (dict_get reply_result ''suggestions'' (PList [PNone]))
               else Inr PNone)
         of
           Inl e \<Rightarrow> Inl e
         | Inr suggested_reply \<Rightarrow>
             (let priority = dict_get priority_result ''priority'' (PStr ''MEDIUM'');
                  tasks = dict_get tasks_result ''tasks'' (PList []);
                  result =
                    [(''sender'', PStr sender),
                     (''message'', PStr message),
                     (''summary'', dict_get summary_result ''summary'' (PStr [])),
                     (''priority'', priority),
                     (''category'', dict_get category_result ''category'' (PStr ''other'')),
                     (''suggested_reply'', suggested_reply),
                     (''tasks'', tasks),
                     (''actions'', PList [])];
                  reply_actions =
                    (if truthy suggested_reply
                     then [send_reply_action suggested_reply (PStr sender)] else [])
              in case py_iter tasks of
                   Inl e \<Rightarrow> Inl e
                 | Inr ts \<Rightarrow>
                     (case direct_task_actions rt priority ts of
                        Inl e \<Rightarrow> Inl e
                      | Inr task_actions \<Rightarrow>
                          Inr (dict_set result ''actions''
                                 (PList (reply_actions @ task_actions))))))"


text \<open>The transcript sent with the planning call.\<close>

definition planning_request :: "string \<Rightarrow> chat_msg list" where
  "planning_request message = [SystemMsg SYSTEM_PROMPT, UserMsg (analysis_prompt message)]"

text \<open>The arguments of a tool call parse.\<close>

definition parses :: "runtime \<Rightarrow> tool_call \<Rightarrow> bool" where
  "parses rt tc = (case json_loads rt (tc_arguments tc) of Inl e \<Rightarrow> False | Inr v \<Rightarrow> True)"

section \<open>Ingestion of one message file (\<open>main.py\<close>)\<close>

text \<open>\<open>s.replace(old, new)\<close> for a non-empty \<open>old\<close>, and the pieces around the first
  occurrence of a separator: \<open>s.split(sep)[1]\<close> is what lies between the first and the
  second occurrence, \<open>s.split(sep, 1)[1]\<close> is everything after the first.\<close>

fun replace_from :: "string \<Rightarrow> string \<Rightarrow> nat \<Rightarrow> string \<Rightarrow> string" where
  "replace_from old new skip [] = []"
| "replace_from old new skip (c # cs) =
     (if 0 < skip then replace_from old new (skip - 1) cs
      else if prefix old (c # cs) then new @ replace_from old new (length old - 1) cs
      else c # replace_from old new 0 cs)"

fun after_first :: "string \<Rightarrow> string \<Rightarrow> string" where
  "after_first sep [] = []"
| "after_first sep (c # cs) =
     (if prefix sep (c # cs) then drop (length sep) (c # cs) else after_first sep cs)"

fun before_first :: "string \<Rightarrow> string \<Rightarrow> string" where
  "before_first sep [] = []"
| "before_first sep (c # cs) =
     (if prefix sep (c # cs) then [] else c # before_first sep cs)"

definition extract_sender :: "runtime \<Rightarrow> string \<Rightarrow> string \<Rightarrow> string" where
  "extract_sender rt filename content =
     (if sublist ''_from_'' filename
      then str_title rt
             (replace_from ''_'' '' '' 0
               (replace_from ''.txt'' [] 0
                 (before_first ''_from_'' (after_first ''_from_'' filename))))
      else (case find (\<lambda>line. prefix ''from:'' (lower line))
                   (take 5 (split_on CHR 0x0A content)) of
              Some line \<Rightarrow> strip (after_first '':'' line)
            | None \<Rightarrow> ''Unknown''))"

text \<open>\<open>display_analysis\<close>: a header and the value of a field that is present and not
  empty; the numbered list of tasks.\<close>

definition print_field :: "runtime \<Rightarrow> string \<Rightarrow> pyval \<Rightarrow> world \<Rightarrow> world" where
  "print_field rt header v w =
     (if truthy v then py_print (fmt rt v) (py_print (nl @ header) w) else w)"

fun print_tasks :: "runtime \<Rightarrow> nat \<Rightarrow> pyval list \<Rightarrow> world \<Rightarrow> world" where
  "print_tasks rt i [] w = w"
| "print_tasks rt i (task # rest) w =
     print_tasks rt (Suc i) rest (py_print (''  '' @ show_nat i @ ''. '' @ fmt rt task) w)"

definition display_analysis :: "runtime \<Rightarrow> pydict \<Rightarrow> world \<Rightarrow> (py_exn + unit) \<times> world" where
  "display_analysis rt result w =
     (let w1 = py_print (replicate 60 CHR ''='')
                 (py_print ''  AGENT ANALYSIS''
                   (py_print (nl @ replicate 60 CHR ''='') w))
      in if dict_contains result ''error''
         then (Inr (), py_print (nl @ ''ERROR: '' @ fmt rt (dict_get result ''error'' PNone)) w1)
         else (let w2 = py_print (nl @ ''[FROM] ''
                                    @ fmt rt (dict_get result ''sender'' (PStr ''Unknown''))) w1;
                   w3 = py_print (''[PRIORITY] ''
                                    @ fmt rt (dict_get result ''priority'' (PStr ''MEDIUM''))) w2
               in case as_text ''upper'' (dict_get result ''category'' (PStr ''other'')) of
                    Inl e \<Rightarrow> (Inl e, w3)
                  | Inr category \<Rightarrow>
                      (let w4 = py_print (''[CATEGORY] '' @ str_upper rt category) w3;
                           w5 = print_field rt ''[SUMMARY]'' (dict_get result ''summary'' PNone) w4;
                           w6 = print_field rt ''[SUGGESTED REPLY]''
                                  (dict_get result ''suggested_reply'' PNone) w5;
                           tasks = dict_get result ''tasks'' PNone
                       in case (if truthy tasks
                                then (case py_iter tasks of
                                        Inl e \<Rightarrow> (Inl e, py_print (nl @ ''[EXTRACTED TASKS]'') w6)
                                      | Inr ts \<Rightarrow>
                                          (Inr (), print_tasks rt 1 ts
                                                     (py_print (nl @ ''[EXTRACTED TASKS]'') w6)))
                                else (Inr (), w6))
                          of
                            (Inl e, w7) \<Rightarrow> (Inl e, w7)
                          | (Inr u, w7) \<Rightarrow>
                              (Inr (),
                               py_print (nl @ replicate 60 CHR ''='')
                                 (print_field rt ''[AGENT NOTES]''
                                    (dict_get result ''analysis'' PNone) w7)))))"

text \<open>What \<open>process_message_file\<close> does with the result of the analysis: display it,
  ask for approval when it has actions, execute what was approved.\<close>

definition review_result :: "runtime \<Rightarrow> pydict \<Rightarrow> world \<Rightarrow> (py_exn + unit) \<times> world" where
  "review_result rt result w =
     (case display_analysis rt result w of
        (Inl e, w1) \<Rightarrow> (Inl e, w1)
      | (Inr u, w1) \<Rightarrow>
          if truthy (dict_get result ''actions'' PNone)
          then (case approval_flow rt result w1 of
                  (Inl e, w2) \<Rightarrow> (Inl e, w2)
                | (Inr approved_actions, w2) \<Rightarrow>
                    if approved_actions \<noteq> []
                    then execute_actions rt approved_actions result w2
                    else (Inr (), w2))
          else (Inr (), w1))"

text \<open>\<open>process_message_file\<close>, with the analysis method it calls on the orchestrator as a
  parameter.  The \<open>try\<close> covers everything; the handler prints the error and the
  traceback.\<close>

definition process_message_with ::
  "(string \<Rightarrow> string \<Rightarrow> py_exn + pydict) \<Rightarrow> runtime \<Rightarrow> string \<Rightarrow> world \<Rightarrow> world" where
  "process_message_with analyse rt name w =
     (case (case readable w (VAULT_INBOX @ name) of
              Inl e \<Rightarrow> (Inl e, w)
            | Inr message \<Rightarrow>
                (let sender = extract_sender rt name message;
                     w1 = py_print ''[SILVER] Analyzing message...'' w
                 in case analyse message sender of
                      Inl e \<Rightarrow> (Inl e, w1)
                    | Inr result \<Rightarrow>
                        (case review_result rt result w1 of
                           (Inl e, w2) \<Rightarrow> (Inl e, w2)
                         | (Inr u, w2) \<Rightarrow>
                             (case rename_file (VAULT_INBOX @ name) (VAULT_PROCESSED @ name) w2 of
                                (Inl e, w3) \<Rightarrow> (Inl e, w3)
                              | (Inr u2, w3) \<Rightarrow>
                                  (Inr (),
                                   py_print (nl @ ''[BRONZE] Message moved to processed: '' @ name)
                                     w3)))))
      of
        (Inr u, w') \<Rightarrow> w'
      | (Inl e, w') \<Rightarrow>
          (let w'' = py_print (''ERROR: Failed to process message - '' @ exn_str e) w'
           in w''\<lparr>stdout := stdout w'' @ [Traceback e]\<rparr>))"

definition process_message_file :: "runtime \<Rightarrow> string \<Rightarrow> world \<Rightarrow> world" where
  "process_message_file rt name w = process_message_with (analyze_with_skills rt) rt name w"


text \<open>The values a priority and a category can take.\<close>

definition PRIORITIES :: "pyval set" where
  "PRIORITIES = {PStr ''HIGH'', PStr ''MEDIUM'', PStr ''LOW''}"

definition CATEGORIES :: "pyval set" where
  "CATEGORIES = {PStr ''work'', PStr ''personal'', PStr ''study'', PStr ''finance'', PStr ''other''}"

text \<open>The assembled record in the words of the specification: each field has its
  default unless the result of its own tool supplies a value.\<close>

definition first_suggestion :: "pydict \<Rightarrow> pyval" where
  "first_suggestion reply_data =
     (case dict_get reply_data ''suggestions'' (PList []) of
        PList (x # xs) \<Rightarrow> x
      | _ \<Rightarrow> PNone)"

definition assembled :: "string \<Rightarrow> string option \<Rightarrow> tool_results \<Rightarrow> string option \<Rightarrow> pydict" where
  "assembled message sender tool_results synthesis =
     [(''message'', PStr message),
      (''sender'', PStr (case sender of None \<Rightarrow> ''Unknown''
                         | Some s \<Rightarrow> if s = [] then ''Unknown'' else s)),
      (''analysis'', opt_str synthesis),
      (''summary'', (case map_of tool_results ''summarizer'' of
                       None \<Rightarrow> PNone
                     | Some d \<Rightarrow> dict_get d ''summary'' (PStr []))),
      (''priority'', (case map_of tool_results ''priority_detector'' of
                        None \<Rightarrow> PStr ''MEDIUM''
                      | Some d \<Rightarrow> dict_get d ''priority'' (PStr ''MEDIUM''))),
      (''category'', (case map_of tool_results ''categorizer'' of
                        None \<Rightarrow> PStr ''other''
                      | Some d \<Rightarrow> dict_get d ''category'' (PStr ''other''))),
      (''suggested_reply'', (case map_of tool_results ''reply_suggester'' of
                               None \<Rightarrow> PNone
                             | Some d \<Rightarrow> first_suggestion d)),
      (''tasks'', (case map_of tool_results ''task_extractor'' of
                     None \<Rightarrow> PList []
                   | Some d \<Rightarrow> dict_get d ''tasks'' (PList [])))]"

text \<open>The suggestions, and the tasks, are lists where they are present.\<close>

definition listlike_suggestions :: "tool_results \<Rightarrow> bool" where
  "listlike_suggestions tool_results =
     (case map_of tool_results ''reply_suggester'' of
        None \<Rightarrow> True
      | Some d \<Rightarrow> (case dict_get d ''suggestions'' (PList []) of PList xs \<Rightarrow> True | _ \<Rightarrow> False))"

definition listlike_tasks :: "tool_results \<Rightarrow> bool" where
  "listlike_tasks tool_results =
     (case map_of tool_results ''task_extractor'' of
        None \<Rightarrow> True
      | Some d \<Rightarrow> (case dict_get d ''tasks'' (PList []) of PList xs \<Rightarrow> True | _ \<Rightarrow> False))"

text \<open>The actions derived from the fields of a record.\<close>

definition derived_actions :: "runtime \<Rightarrow> pydict \<Rightarrow> pyval list" where
  "derived_actions rt record =
     (let reply = dict_get record ''suggested_reply'' PNone;
          tasks = (case dict_get record ''tasks'' PNone of PList ts \<Rightarrow> ts | _ \<Rightarrow> [])
      in (if truthy reply
          then [send_reply_action reply (dict_get record ''sender'' PNone)] else [])
         @ map (\<lambda>t. create_task_action (fmt rt t) t (dict_get record ''priority'' PNone)) tasks)"

text \<open>What a run has left outside the console: the input still unread, the prompts shown,
  the files written and the files moved.\<close>

definition effects :: "world \<Rightarrow> string list \<times> nat \<times> (string \<times> file_content) list \<times> (string \<times> string) list" where
  "effects w = (stdin w, prompts w, written w, renamed w)"

section \<open>Sample data for concrete runs\<close>

text \<open>A runtime for the concrete runs below.  Its \<open>json.loads\<close> parses the two argument
  texts that the runs use and reports any other text as it reports an empty document; no
  pattern matches; floats are exact; the clock formats every instant as noon of
  2024-01-01; the remaining library functions return a fixed text or their argument.\<close>

definition sample_runtime :: runtime where
  \<open>sample_runtime =
     \<lparr>py_str = (\<lambda>v. ''<value>''),
      json_loads = (\<lambda>s.
         if s = ''{"content": "hi"}'' then Inr (PDict [(''content'', PStr ''hi'')])
         else if s = ''{}'' then Inr (PDict [])
         else Inl (Exn ''JSONDecodeError'' ''Expecting value: line 1 column 1 (char 0)'')),
      re_search = (\<lambda>p s. False),
      fround = (\<lambda>x. x),
      set_order = remdups,
      str_title = (\<lambda>s. s),
      str_upper = (\<lambda>s. s),
      strftime = (\<lambda>f t. if f = ''%Y%m%d_%H%M%S'' then ''20240101_120000''
                        else ''2024-01-01 12:00:00''),
      isoformat = (\<lambda>t. ''2024-01-01T12:00:00'')\<rparr>\<close>

text \<open>Tool results, the record assembled from them, its actions, and a world with the
  given input lines, an empty disk and no failures.\<close>

definition sample_tool_results :: tool_results where
  "sample_tool_results =
     [(''reply_suggester'', [(''suggestions'', PList [PStr ''Hello!'', PStr ''Hi!''])]),
      (''task_extractor'', [(''tasks'', PList [PStr ''call Bob''])])]"

definition sample_record :: pydict where
  "sample_record =
     [(''message'', PStr ''hi''),
      (''sender'', PStr ''Unknown''),
      (''analysis'', PNone),
      (''summary'', PNone),
      (''priority'', PStr ''MEDIUM''),
      (''category'', PStr ''other''),
      (''suggested_reply'', PStr ''Hello!''),
      (''tasks'', PList [PStr ''call Bob'']),
      (''actions'', PList [send_reply_action (PStr ''Hello!'') (PStr ''Unknown''),
                           create_task_action ''call Bob'' (PStr ''call Bob'') (PStr ''MEDIUM'')])]"

definition sample_actions :: "pyval list" where
  "sample_actions =
     [send_reply_action (PStr ''Hello!'') (PStr ''Unknown''),
      create_task_action ''call Bob'' (PStr ''call Bob'') (PStr ''MEDIUM'')]"

definition sample_world :: "string list \<Rightarrow> world" where
  "sample_world lines =
     \<lparr>stdin = lines, stdout = [], clock = (\<lambda>k. k), ticks = 0,
      readable = (\<lambda>p. Inl (Exn ''FileNotFoundError'' p)), written = [], renamed = [],
      fs_error = (\<lambda>k. None), fs_ops = 0\<rparr>"

text \<open>Tool calls and model providers: one that cannot be reached, one that asks for the
  given tool calls and then answers, one that asks for them and then times out.\<close>

definition sample_call :: "string \<Rightarrow> string \<Rightarrow> string \<Rightarrow> tool_call" where
  "sample_call i n a = \<lparr>tc_id = i, tc_name = n, tc_arguments = a\<rparr>"

definition offline_client :: chat_client where
  "offline_client = (\<lambda>messages tools. Inl (Exn ''APIConnectionError'' ''Connection error.''))"

definition tools_client :: "tool_call list \<Rightarrow> chat_client" where
  "tools_client calls =
     (\<lambda>messages tools.
        if tools then Inr \<lparr>msg_content = None, msg_tool_calls = calls\<rparr>
        else Inr \<lparr>msg_content = Some ''Done.'', msg_tool_calls = []\<rparr>)"

definition dropping_client :: "tool_call list \<Rightarrow> chat_client" where
  "dropping_client calls =
     (\<lambda>messages tools.
        if tools then Inr \<lparr>msg_content = None, msg_tool_calls = calls\<rparr>
        else Inl (Exn ''APITimeoutError'' ''Request timed out.''))"

definition summarizer_call :: tool_call where
  \<open>summarizer_call = sample_call ''call_1'' ''summarizer'' ''{"content": "hi"}''\<close>

definition unparsable_call :: tool_call where
  "unparsable_call = sample_call ''call_2'' ''priority_detector'' []"

definition categorizer_call :: tool_call where
  \<open>categorizer_call = sample_call ''call_3'' ''categorizer'' ''{"content": "hi"}''\<close>

text \<open>The descriptor the task extractor builds for the line "Please review the
  report".\<close>

definition review_task :: pyval where
  "review_task =
     PDict [(''title'', PStr ''Please review the report''),
            (''description'', PStr ''Please review the report''),
            (''priority'', PStr ''normal''),
            (''index'', PInt 0)]"

text \<open>A disk on which the first operation fails and the later ones succeed.\<close>

definition faulty_disk :: world where
  "faulty_disk =
     (sample_world [])
       \<lparr>fs_error := (\<lambda>k. if k = 0
                          then Some (Exn ''OSError'' ''[Errno 28] No space left on device'')
                          else None)\<rparr>"

text \<open>A disk on which the third operation fails and the others succeed.\<close>

definition full_disk :: world where
  "full_disk =
     (sample_world [])
       \<lparr>fs_error := (\<lambda>k. if k = 2
                          then Some (Exn ''OSError'' ''[Errno 28] No space left on device'')
                          else None)\<rparr>"

text \<open>An analysis step that raises, and an inbox that holds one message file.\<close>

definition failing_analysis :: "string \<Rightarrow> string \<Rightarrow> py_exn + pydict" where
  "failing_analysis message sender = Inl (Exn ''RuntimeError'' ''analysis failed'')"

definition sample_inbox :: world where
  "sample_inbox =
     (sample_world [''yes''])
       \<lparr>readable := (\<lambda>p. if p = ''vault/inbox/note_from_bob.txt'' then Inr ''hi''
                          else Inl (Exn ''FileNotFoundError'' p))\<rparr>"

section \<open>Facts about dictionaries\<close>

lemma map_of_dict_set:
  "map_of (dict_set d k v) k' = (if k' = k then Some v else map_of d k')"
  by (simp add: dict_set_def update_conv')

lemma dict_get_dict_set:
  "dict_get (dict_set d k v) k' dflt = (if k' = k then v else dict_get d k' dflt)"
  by (simp add: dict_get_def map_of_dict_set)

lemma dict_index_dict_set:
  "dict_index (dict_set d k v) k' = (if k' = k then Inr v else dict_index d k')"
  by (simp add: dict_index_def map_of_dict_set)

section \<open>Action derivation does not read the stored actions\<close>

lemma create_task_actions_ignores_actions:
  "create_task_actions rt (dict_set a ''actions'' v) ts = create_task_actions rt a ts"
  by (induction ts) (simp_all add: dict_index_dict_set cong: sum.case_cong)

lemma determine_actions_ignores_actions:
  "determine_actions rt (dict_set a ''actions'' v) = determine_actions rt a"
  by (simp add: determine_actions_def dict_get_dict_set dict_index_dict_set
        create_task_actions_ignores_actions cong: sum.case_cong if_cong)

text \<open>
  Claim C8.  Action derivation is a function of the record, and it never reads the
  \<open>actions\<close> field it fills: running \<open>_determine_actions\<close> again on the record that
  \<open>_structure_output\<close> has finished returns, in the same order, exactly the action list
  stored in that record by the first run.
\<close>

theorem determine_actions_rerun:
  assumes "structure_output rt message sender tool_results synthesis = Inr out"
  shows "\<exists>acts. map_of out ''actions'' = Some (PList acts)
              \<and> determine_actions rt out = Inr acts
              \<and> determine_actions rt (dict_set out ''actions'' (PList acts)) = Inr acts"
proof -
  from assms obtain rec acts where
    run1: "determine_actions rt rec = Inr acts" and
    out: "out = dict_set rec ''actions'' (PList acts)"
    by (auto simp: structure_output_def Let_def split: sum.splits)
  have "map_of out ''actions'' = Some (PList acts)"
    by (simp add: out map_of_dict_set)
  moreover have "determine_actions rt out = Inr acts"
    by (simp add: out determine_actions_ignores_actions run1)
  moreover have "determine_actions rt (dict_set out ''actions'' (PList acts)) = Inr acts"
    by (simp add: out determine_actions_ignores_actions run1)
  ultimately show ?thesis by blast
qed

lemma sample_record_built:
  "structure_output sample_runtime ''hi'' None sample_tool_results None = Inr sample_record"
  by (simp add: structure_output_def sample_tool_results_def sample_record_def
        initial_output_def take_summary_def take_priority_def take_category_def
        take_reply_def take_tasks_def determine_actions_def dict_get_def dict_set_def
        dict_index_def opt_str_def fmt_def)

theorem determine_actions_rerun_witness:
  "structure_output sample_runtime ''hi'' None sample_tool_results None = Inr sample_record
   \<and> (\<exists>acts. map_of sample_record ''actions'' = Some (PList acts)
         \<and> determine_actions sample_runtime sample_record = Inr acts
         \<and> determine_actions sample_runtime
               (dict_set sample_record ''actions'' (PList acts)) = Inr acts)"
  using determine_actions_rerun [OF sample_record_built] sample_record_built by simp

section \<open>The approval gate keeps an ordered subsequence\<close>


lemma prompts_print [simp]: "prompts (py_print s w) = prompts w"
  by (simp add: prompts_def py_print_def)

lemma stdin_print [simp]: "stdin (py_print s w) = stdin w"
  by (simp add: py_print_def)

lemma written_print [simp]: "written (py_print s w) = written w"
  by (simp add: py_print_def)

lemma show_action_presentable:
  assumes "presentable rt a"
  shows "\<exists>w1. show_action rt i a w = (Inr (), w1) \<and> stdin w1 = stdin w
            \<and> prompts w1 = prompts w \<and> written w1 = written w"
  using assms
  by (auto simp: presentable_def show_action_def Let_def split: sum.splits option.splits)

lemma py_input_line:
  assumes "stdin w = l # ls"
  shows "\<exists>w2. py_input p w = (Inr l, w2) \<and> stdin w2 = ls \<and> prompts w2 = Suc (prompts w)
     \<and> written w2 = written w"
  using assms by (simp add: py_input_def prompts_def)

lemma decided_Nil [simp]: "decided [] ls = []"
  by (simp add: decided_def)

lemma decided_Cons [simp]:
  "decided (a # as) (l # ls) = (if approves l then a # decided as ls else decided as ls)"
  by (simp add: decided_def)

lemma approval_loop_decided:
  assumes "\<forall>a\<in>set actions. presentable rt a" and "length actions \<le> length (stdin w)"
  shows "\<exists>w'. approval_loop rt i actions approved w = (Inr (approved @ decided actions (stdin w)), w')
           \<and> stdin w' = drop (length actions) (stdin w)
           \<and> prompts w' = prompts w + length actions
           \<and> written w' = written w"
  using assms
proof (induction actions arbitrary: i approved w)
  case Nil
  then show ?case by simp
next
  case (Cons a as)
  from Cons.prems obtain l ls where ls: "stdin w = l # ls"
    by (cases "stdin w") auto
  from Cons.prems obtain w1 where
    w1: "show_action rt i a w = (Inr (), w1)" "stdin w1 = stdin w"
        "prompts w1 = prompts w" "written w1 = written w"
    using show_action_presentable [of rt a i w] by auto
  from ls w1 obtain w2 where
    w2: "py_input approval_prompt w1 = (Inr l, w2)" "stdin w2 = ls"
        "prompts w2 = Suc (prompts w)" "written w2 = written w"
    using py_input_line [of w1 l ls approval_prompt] by auto
  have pres: "\<forall>a\<in>set as. presentable rt a" using Cons.prems by simp
  have len: "length as \<le> length ls" using Cons.prems ls by simp
  show ?case
  proof (cases "approves l")
    case True
    from Cons.IH [OF pres, of "py_print ''  -> APPROVED'' w2" "Suc i" "approved @ [a]"] len w2
    show ?thesis using w1 w2 ls True by auto
  next
    case False
    from Cons.IH [OF pres, of "py_print ''  -> REJECTED'' w2" "Suc i" approved] len w2
    show ?thesis using w1 w2 ls False by auto
  qed
qed

lemma subseq_decided: "subseq (decided actions ls) actions"
proof (induction actions arbitrary: ls)
  case Nil then show ?case by simp
next
  case IH: (Cons a as)
  show ?case
  proof (cases ls)
    case Nil
    then show ?thesis by (simp add: decided_def)
  next
    case (Cons l ls')
    then show ?thesis using IH.IH [of ls'] by auto
  qed
qed

lemma decided_all:
  "length actions \<le> length ls \<Longrightarrow> \<forall>l\<in>set (take (length actions) ls). approves l \<Longrightarrow> decided actions ls = actions"
proof (induction actions arbitrary: ls)
  case Nil then show ?case by simp
next
  case (Cons a as)
  then show ?case by (cases ls) auto
qed

lemma lower_empty [simp]: "lower s = [] \<longleftrightarrow> s = []"
  by (simp add: lower_def)

lemma approves_iff:
  "approves l \<longleftrightarrow> strip l = [] \<or> lower (strip l) = ''y'' \<or> lower (strip l) = ''yes''"
  by (auto simp: approves_def)


text \<open>
  Claim C3, as the code has it.  Over an action list whose entries can be displayed and
  with one input line available per action, the gate prompts once per action, in list
  order; line \<open>k\<close> decides action \<open>k\<close>; the result is the ordered subsequence of the actions
  whose line approves.  A line approves exactly when, stripped, it is empty or is a
  case-insensitive spelling of "y" or of "yes"; every other line rejects.  A run of empty
  lines approves every action in order, and a rejection followed by approvals returns the
  list without its first action.
\<close>

theorem approval_flow_decides:
  assumes acts: "dict_get result ''actions'' (PList []) = PList actions"
      and pres: "\<forall>a\<in>set actions. presentable rt a"
      and len: "length actions \<le> length (stdin w)"
  shows "\<exists>w'. approval_flow rt result w = (Inr (decided actions (stdin w)), w')
           \<and> stdin w' = drop (length actions) (stdin w)
           \<and> prompts w' = prompts w + length actions
           \<and> subseq (decided actions (stdin w)) actions
           \<and> (\<forall>l. approves l \<longleftrightarrow>
                  strip l = [] \<or> lower (strip l) = ''y'' \<or> lower (strip l) = ''yes'')
           \<and> ((\<forall>l\<in>set (take (length actions) (stdin w)). strip l = [])
                \<longrightarrow> decided actions (stdin w) = actions)
           \<and> (\<forall>a rest l ls. actions = a # rest \<and> stdin w = l # ls \<and> \<not> approves l
                  \<and> (\<forall>l'\<in>set (take (length rest) ls). approves l')
                \<longrightarrow> decided actions (stdin w) = rest)"
proof -
  have flow: "\<exists>w'. approval_flow rt result w = (Inr (decided actions (stdin w)), w')
           \<and> stdin w' = drop (length actions) (stdin w)
           \<and> prompts w' = prompts w + length actions"
  proof (cases "actions = []")
    case True
    then show ?thesis using acts by (simp add: approval_flow_def)
  next
    case False
    let ?w3 = "py_print (replicate 60 CHR ''-'') (py_print ''  APPROVAL REQUIRED''
                 (py_print ([CHR 0x0A] @ replicate 60 CHR ''-'') w))"
    have "length actions \<le> length (stdin ?w3)" using len by simp
    from approval_loop_decided [OF pres this, of 1 "[]"]
    show ?thesis using acts False by (auto simp: approval_flow_def Let_def)
  qed
  have all: "(\<forall>l\<in>set (take (length actions) (stdin w)). strip l = [])
                \<longrightarrow> decided actions (stdin w) = actions"
    using decided_all [OF len] by (simp add: approves_iff)
  have skip: "\<forall>a rest l ls. actions = a # rest \<and> stdin w = l # ls \<and> \<not> approves l
                  \<and> (\<forall>l'\<in>set (take (length rest) ls). approves l')
                \<longrightarrow> decided actions (stdin w) = rest"
  proof (intro allI impI, elim conjE)
    fix a rest l ls
    assume a: "actions = a # rest" "stdin w = l # ls" "\<not> approves l"
       "\<forall>l'\<in>set (take (length rest) ls). approves l'"
    then have "length rest \<le> length ls" using len by simp
    from decided_all [OF this a(4)] a show "decided actions (stdin w) = rest" by simp
  qed
  from flow all skip subseq_decided [of actions "stdin w"] approves_iff
  show ?thesis by blast
qed

lemma sample_decided: "decided sample_actions [''n'', []] = [create_task_action ''call Bob'' (PStr ''call Bob'') (PStr ''MEDIUM'')]"
  by code_simp

lemma sample_presentable: "\<forall>a\<in>set sample_actions. presentable sample_runtime a"
  by code_simp

lemma sample_record_actions: "dict_get sample_record ''actions'' (PList []) = PList sample_actions"
  by code_simp

text \<open>
  The classification in the words of the specification rejects the line "y"; the gate
  approves it, so "everything else is rejection" fails at that input.
\<close>

theorem approval_flow_y_counterexample:
  "\<not> spec_approves ''y''
   \<and> fst (approval_flow sample_runtime
            [(''actions'', PList [create_task_action ''call Bob'' (PStr ''call Bob'') (PStr ''MEDIUM'')])]
            (sample_world [''y'']))
     = Inr [create_task_action ''call Bob'' (PStr ''call Bob'') (PStr ''MEDIUM'')]"
  by code_simp


theorem approval_flow_decides_witness:
  "dict_get sample_record ''actions'' (PList []) = PList sample_actions
   \<and> list_all (presentable sample_runtime) sample_actions
   \<and> length sample_actions \<le> length (stdin (sample_world [''n'', []]))
   \<and> (\<exists>w'. approval_flow sample_runtime sample_record (sample_world [''n'', []])
              = (Inr [create_task_action ''call Bob'' (PStr ''call Bob'') (PStr ''MEDIUM'')], w')
            \<and> stdin w' = [] \<and> prompts w' = 2)"
proof -
  have len: "length sample_actions \<le> length (stdin (sample_world [''n'', []]))"
    by (simp add: sample_actions_def sample_world_def)
  from approval_flow_decides [OF sample_record_actions sample_presentable len]
  obtain w' where
    "approval_flow sample_runtime sample_record (sample_world [''n'', []])
       = (Inr (decided sample_actions (stdin (sample_world [''n'', []]))), w')"
    "stdin w' = drop (length sample_actions) (stdin (sample_world [''n'', []]))"
    "prompts w' = prompts (sample_world [''n'', []]) + length sample_actions"
    by blast
  then have "approval_flow sample_runtime sample_record (sample_world [''n'', []])
              = (Inr [create_task_action ''call Bob'' (PStr ''call Bob'') (PStr ''MEDIUM'')], w')
            \<and> stdin w' = [] \<and> prompts w' = 2"
    using sample_decided by (simp add: sample_world_def sample_actions_def prompts_def)
  with sample_record_actions sample_presentable len show ?thesis
    by (simp add: list_all_iff)
qed


section \<open>The executor attempts every action and logs the batch once\<close>

lemma quiet_refl [simp]: "quiet w w"
  by (simp add: quiet_def frame_def)

lemma quiet_trans: "quiet w w1 \<Longrightarrow> quiet w1 w2 \<Longrightarrow> quiet w w2"
  by (simp add: quiet_def frame_def)

lemma quiet_now: "quiet w (snd (now w))"
  by (simp add: quiet_def frame_def now_def reports_def audit_entries_def prompts_def)

lemma quiet_print_plain:
  "\<not> is_report (Printed s) \<Longrightarrow> quiet w (py_print s w)"
  by (simp add: quiet_def frame_def py_print_def reports_def audit_entries_def prompts_def)

lemma report_print:
  "is_report (Printed s) \<Longrightarrow>
     frame w (py_print s w) \<and> reports (py_print s w) = reports w @ [Printed s]"
  by (simp add: frame_def py_print_def reports_def audit_entries_def prompts_def)

lemma quiet_write_actions:
  "quiet w (snd (write_file (VAULT_ACTIONS @ name) c w))"
  by (simp add: quiet_def frame_def write_file_def reports_def audit_entries_def prompts_def
      VAULT_ACTIONS_def VAULT_LOGS_def split: option.splits)

lemma not_report_saved:
  "\<not> is_report (Printed (''  -> Draft saved: '' @ p))"
  "\<not> is_report (Printed (''  -> Task created: '' @ p))"
  by (simp_all add: is_report_def)

lemma is_report_outcome:
  "is_report (Printed (''SUCCESS: '' @ d))"
  "is_report (Printed (''ERROR: Failed to execute '' @ d @ m))"
  by (simp_all add: is_report_def)

lemma quiet_execute_send_reply:
  "quiet w (snd (execute_send_reply rt action result w))"
proof -
  obtain t1 w1 where n1: "now w = (t1, w1)" by (cases "now w")
  obtain t2 w2 where n2: "now w1 = (t2, w2)" by (cases "now w1")
  have q2: "quiet w w2"
    using quiet_now [of w] quiet_now [of w1] n1 n2 by (auto intro: quiet_trans)
  have qw: "\<And>name c. quiet w (snd (write_file (VAULT_ACTIONS @ name) c w2))"
    using quiet_write_actions q2 by (blast intro: quiet_trans)
  have qp: "\<And>name c. quiet w (py_print (''  -> Draft saved: '' @ VAULT_ACTIONS @ name)
             (snd (write_file (VAULT_ACTIONS @ name) c w2)))"
    using qw quiet_print_plain not_report_saved(1) by (blast intro: quiet_trans)
  show ?thesis
    using q2 qw qp
    by (simp add: execute_send_reply_def n1 n2 Let_def split: sum.splits prod.splits)
       (metis snd_conv)
qed

lemma quiet_execute_create_task:
  "quiet w (snd (execute_create_task rt action result w))"
proof -
  obtain t1 w1 where n1: "now w = (t1, w1)" by (cases "now w")
  obtain t2 w2 where n2: "now w1 = (t2, w2)" by (cases "now w1")
  have q2: "quiet w w2"
    using quiet_now [of w] quiet_now [of w1] n1 n2 by (auto intro: quiet_trans)
  have qw: "\<And>name c. quiet w (snd (write_file (VAULT_ACTIONS @ name) c w2))"
    using quiet_write_actions q2 by (blast intro: quiet_trans)
  have qp: "\<And>name c. quiet w (py_print (''  -> Task created: '' @ VAULT_ACTIONS @ name)
             (snd (write_file (VAULT_ACTIONS @ name) c w2)))"
    using qw quiet_print_plain not_report_saved(2) by (blast intro: quiet_trans)
  show ?thesis
    using q2 qw qp
    by (simp add: execute_create_task_def n1 n2 Let_def split: sum.splits prod.splits)
       (metis snd_conv)
qed

text \<open>One round of the loop never raises for an action that has a type and a
  description, and reports the action once.\<close>

lemma attempt_action_reports:
  assumes "loggable action"
  shows "\<exists>w1 ev. attempt_action rt action result w = (Inr (), w1)
            \<and> frame w w1 \<and> reports w1 = reports w @ [ev] \<and> reported_as rt action ev"
proof -
  from assms obtain ty d where
    ty: "py_getitem action ''type'' = Inr ty" and d: "py_getitem action ''description'' = Inr d"
    by (auto simp: loggable_def split: sum.splits)
  define inner where "inner =
     (if ty = PStr ''send_reply'' then execute_send_reply rt action result w
      else if ty = PStr ''create_task'' then execute_create_task rt action result w
      else (Inr (), w))"
  have q: "quiet w (snd inner)"
    by (simp add: inner_def quiet_execute_send_reply quiet_execute_create_task)
  obtain r wi where inner: "inner = (r, wi)" by (cases inner)
  with q have qi: "frame w wi" "reports wi = reports w" by (simp_all add: quiet_def)
  have desc: "action_description rt action = Inr (fmt rt d)"
    by (simp add: action_description_def d)
  have step: "\<And>s. is_report (Printed s) \<Longrightarrow>
      frame w (py_print s wi) \<and> reports (py_print s wi) = reports w @ [Printed s]"
    using report_print [of _ wi] qi by (auto simp: frame_def)
  show ?thesis
  proof (cases r)
    case (Inl e)
    have "reported_as rt action
            (Printed (''ERROR: Failed to execute '' @ fmt rt d @ '' - '' @ exn_str e))"
      using desc by (auto simp: reported_as_def)
    then show ?thesis
      using Inl inner step [OF is_report_outcome(2)]
      by (simp add: attempt_action_def execute_one_def ty desc inner_def [symmetric])
  next
    case (Inr u)
    have "reported_as rt action (Printed (''SUCCESS: '' @ fmt rt d))"
      using desc by (auto simp: reported_as_def)
    then show ?thesis
      using Inr inner step [OF is_report_outcome(1)]
      by (simp add: attempt_action_def execute_one_def ty desc inner_def [symmetric])
  qed
qed

lemma frame_trans: "frame w w1 \<Longrightarrow> frame w1 w2 \<Longrightarrow> frame w w2"
  by (simp add: frame_def)

text \<open>The loop is the attempts one after the other: a failure inside one attempt does
  not stop the batch.\<close>

lemma execute_loop_reports:
  assumes "list_all loggable actions"
  shows "\<exists>w1 evs. execute_loop rt actions result w = (Inr (), w1)
            \<and> w1 = foldl (\<lambda>v a. snd (attempt_action rt a result v)) w actions
            \<and> frame w w1 \<and> reports w1 = reports w @ evs
            \<and> list_all2 (reported_as rt) actions evs"
  using assms
proof (induction actions arbitrary: w)
  case Nil
  then show ?case by (simp add: frame_def)
next
  case (Cons a as)
  then obtain w1 ev where
    w1: "attempt_action rt a result w = (Inr (), w1)" "frame w w1"
        "reports w1 = reports w @ [ev]" "reported_as rt a ev"
    using attempt_action_reports [of a rt result w] by auto
  from Cons obtain w2 evs where
    w2: "execute_loop rt as result w1 = (Inr (), w2)"
        "w2 = foldl (\<lambda>v a. snd (attempt_action rt a result v)) w1 as"
        "frame w1 w2" "reports w2 = reports w1 @ evs" "list_all2 (reported_as rt) as evs"
    by fastforce
  have "list_all2 (reported_as rt) (a # as) (ev # evs)"
    using w1(4) w2(5) by simp
  moreover have "reports w2 = reports w @ (ev # evs)"
    using w1(3) w2(4) by simp
  moreover have "frame w w2" using w1(2) w2(3) by (rule frame_trans)
  moreover have "execute_loop rt (a # as) result w = (Inr (), w2)"
    using w1(1) w2(1) by simp
  moreover have "w2 = foldl (\<lambda>v a. snd (attempt_action rt a result v)) w (a # as)"
    using w1(1) w2(2) by simp
  ultimately show ?case by blast
qed

lemma log_items_loggable:
  assumes "list_all loggable actions"
  shows "\<exists>items. log_items actions = Inr items \<and> list_all2 logged_as actions items"
  using assms
proof (induction actions)
  case Nil
  then show ?case by simp
next
  case (Cons a as)
  then obtain items where items: "log_items as = Inr items" "list_all2 logged_as as items"
    by auto
  from Cons.prems obtain ty d where
    "py_getitem a ''type'' = Inr ty" "py_getitem a ''description'' = Inr d"
    by (auto simp: loggable_def split: sum.splits)
  then have "logged_as a (PDict [(''type'', ty), (''description'', d)])"
      and "log_items (a # as) = Inr (PDict [(''type'', ty), (''description'', d)] # items)"
    using items by (simp_all add: logged_as_def)
  then show ?case using items by simp
qed

lemma not_prefix_replicate: "c \<noteq> d \<Longrightarrow> \<not> prefix (c # s) (replicate n d)"
  by (cases n) auto

lemma frame_banner: "frame w (execute_banner w) \<and> reports (execute_banner w) = reports w"
proof -
  have "quiet w (execute_banner w)"
    unfolding execute_banner_def
    by (intro quiet_trans [OF quiet_trans [OF quiet_print_plain quiet_print_plain] quiet_print_plain])
       (simp_all add: is_report_def nl_def not_prefix_replicate)
  then show ?thesis by (simp add: quiet_def)
qed

text \<open>\<open>log_execution\<close> reads the clock twice, builds the entry and writes it.\<close>

lemma log_execution_writes:
  assumes "log_items actions = Inr items"
  shows "log_execution rt actions result w =
      write_file (VAULT_LOGS @ ''execution_'' @ strftime rt ''%Y%m%d_%H%M%S'' (clock w (ticks w)) @ ''.json'')
        (Json (PDict [(''timestamp'', PStr (isoformat rt (clock w (Suc (ticks w))))),
                      (''sender'', dict_get result ''sender'' PNone),
                      (''priority'', dict_get result ''priority'' PNone),
                      (''category'', dict_get result ''category'' PNone),
                      (''actions_executed'', PInt (int (length actions))),
                      (''actions'', PList items)]))
        (w\<lparr>ticks := Suc (Suc (ticks w))\<rparr>)"
  using assms by (simp add: log_execution_def log_entry_def now_def Let_def)


text \<open>An attempt at a reply action and at a task action, on a disk that accepts the file
  and on one that refuses it.\<close>

lemma attempt_send_reply:
  assumes "py_getitem action ''type'' = Inr (PStr ''send_reply'')"
      and "action_data action ''recipient'' = Inr recipient"
      and "action_data action ''reply'' = Inr reply"
      and "action_description rt action = Inr d"
  shows "attempt_action rt action result v =
     (Inr (),
      (case fs_error v (fs_ops v) of
         Some e \<Rightarrow>
           v\<lparr>ticks := Suc (Suc (ticks v)), fs_ops := Suc (fs_ops v),
             stdout := stdout v @
               [Printed (''ERROR: Failed to execute '' @ d @ '' - '' @ exn_str e)]\<rparr>
       | None \<Rightarrow>
           v\<lparr>ticks := Suc (Suc (ticks v)), fs_ops := Suc (fs_ops v),
             written := written v @
               [(VAULT_ACTIONS @ ''reply_draft_''
                   @ strftime rt ''%Y%m%d_%H%M%S'' (clock v (ticks v)) @ ''.txt'',
                 Text (''Reply Draft'' @ nl
                       @ ''Generated: ''
                       @ strftime rt ''%Y-%m-%d %H:%M:%S'' (clock v (Suc (ticks v))) @ nl
                       @ ''To: '' @ fmt rt recipient @ nl
                       @ ''Priority: ''
                       @ fmt rt (dict_get result ''priority'' (PStr ''MEDIUM'')) @ nl
                       @ nl @ ''---'' @ nl @ nl
                       @ fmt rt reply @ nl
                       @ nl @ ''---'' @ nl @ nl
                       @ ''Note: This is a draft. Review and send manually.'' @ nl))],
             stdout := stdout v @
               [Printed (''  -> Draft saved: '' @ VAULT_ACTIONS @ ''reply_draft_''
                           @ strftime rt ''%Y%m%d_%H%M%S'' (clock v (ticks v)) @ ''.txt''),
                Printed (''SUCCESS: '' @ d)]\<rparr>))"
  using assms
  by (simp add: attempt_action_def execute_one_def execute_send_reply_def now_def Let_def
      write_file_def py_print_def split: option.splits)

lemma attempt_create_task:
  assumes "py_getitem action ''type'' = Inr (PStr ''create_task'')"
      and "action_data action ''priority'' = Inr priority"
      and "action_data action ''task'' = Inr task"
      and "action_description rt action = Inr d"
  shows "attempt_action rt action result v =
     (Inr (),
      (case fs_error v (fs_ops v) of
         Some e \<Rightarrow>
           v\<lparr>ticks := Suc (Suc (ticks v)), fs_ops := Suc (fs_ops v),
             stdout := stdout v @
               [Printed (''ERROR: Failed to execute '' @ d @ '' - '' @ exn_str e)]\<rparr>
       | None \<Rightarrow>
           v\<lparr>ticks := Suc (Suc (ticks v)), fs_ops := Suc (fs_ops v),
             written := written v @
               [(VAULT_ACTIONS @ ''task_''
                   @ strftime rt ''%Y%m%d_%H%M%S'' (clock v (ticks v)) @ ''.txt'',
                 Text (''Task'' @ nl
                       @ ''Created: ''
                       @ strftime rt ''%Y-%m-%d %H:%M:%S'' (clock v (Suc (ticks v))) @ nl
                       @ ''Priority: '' @ fmt rt priority @ nl
                       @ nl @ ''---'' @ nl @ nl
                       @ fmt rt task @ nl
                       @ nl @ ''---'' @ nl @ nl
                       @ ''Source: ''
                       @ fmt rt (dict_get result ''sender'' (PStr ''Unknown'')) @ nl
                       @ ''Category: ''
                       @ fmt rt (dict_get result ''category'' (PStr ''other'')) @ nl))],
             stdout := stdout v @
               [Printed (''  -> Task created: '' @ VAULT_ACTIONS @ ''task_''
                           @ strftime rt ''%Y%m%d_%H%M%S'' (clock v (ticks v)) @ ''.txt''),
                Printed (''SUCCESS: '' @ d)]\<rparr>))"
  using assms
  by (simp add: attempt_action_def execute_one_def execute_create_task_def now_def Let_def
      write_file_def py_print_def split: option.splits)


text \<open>
  Claim C9.  For a batch of actions that each have a type and a description, the loop
  is the attempts one after the other, whatever the file system does: every attempt
  returns, and each action gets one report in order, a success or the failure that was
  caught.  An attempt at a reply or a task writes its file under the actions directory
  when the disk accepts it, and writes nothing and reports the disk's error when it
  does not.  No audit entry is written meanwhile.  Then \<open>log_execution\<close> runs once: unless
  opening the log file fails, exactly one file is added, under the log directory, a JSON
  object with the timestamp, the record's sender, priority and category, the number of
  actions of the batch, and the type and description of each action in order.  If
  opening the log file fails, that error reaches the caller and no entry is written.
\<close>

theorem execute_actions_audit:
  assumes "list_all loggable actions"
  shows "(\<exists>w1 evs items.
           execute_loop rt actions result (execute_banner w) = (Inr (), w1)
         \<and> w1 = foldl (\<lambda>v a. snd (attempt_action rt a result v)) (execute_banner w) actions
         \<and> reports w1 = reports w @ evs
         \<and> list_all2 (reported_as rt) actions evs
         \<and> audit_entries w1 = audit_entries w
         \<and> list_all2 logged_as actions items
         \<and> (\<forall>e. fs_error w (fs_ops w1) = Some e \<longrightarrow>
              (\<exists>w'. execute_actions rt actions result w = (Inl e, w')
                    \<and> written w' = written w1
                    \<and> audit_entries w' = audit_entries w))
         \<and> (fs_error w (fs_ops w1) = None \<longrightarrow>
              (\<exists>w'. execute_actions rt actions result w = (Inr (), w')
                    \<and> written w' = written w1 @
                          [(VAULT_LOGS @ ''execution_''
                              @ strftime rt ''%Y%m%d_%H%M%S'' (clock w (ticks w1)) @ ''.json'',
                            Json (PDict
                              [(''timestamp'', PStr (isoformat rt (clock w (Suc (ticks w1))))),
                               (''sender'', dict_get result ''sender'' PNone),
                               (''priority'', dict_get result ''priority'' PNone),
                               (''category'', dict_get result ''category'' PNone),
                               (''actions_executed'', PInt (int (length actions))),
                               (''actions'', PList items)]))]
                    \<and> audit_entries w' = audit_entries w @
                          [(VAULT_LOGS @ ''execution_''
                              @ strftime rt ''%Y%m%d_%H%M%S'' (clock w (ticks w1)) @ ''.json'',
                            Json (PDict
                              [(''timestamp'', PStr (isoformat rt (clock w (Suc (ticks w1))))),
                               (''sender'', dict_get result ''sender'' PNone),
                               (''priority'', dict_get result ''priority'' PNone),
                               (''category'', dict_get result ''category'' PNone),
                               (''actions_executed'', PInt (int (length actions))),
                               (''actions'', PList items)]))])))
         \<and> (\<forall>action v recipient reply d.
                py_getitem action ''type'' = Inr (PStr ''send_reply'')
              \<and> action_data action ''recipient'' = Inr recipient
              \<and> action_data action ''reply'' = Inr reply
              \<and> action_description rt action = Inr d
              \<longrightarrow> attempt_action rt action result v =
                   (Inr (),
                    (case fs_error v (fs_ops v) of
                       Some e \<Rightarrow>
                         v\<lparr>ticks := Suc (Suc (ticks v)), fs_ops := Suc (fs_ops v),
                           stdout := stdout v @
                             [Printed (''ERROR: Failed to execute '' @ d @ '' - ''
                                         @ exn_str e)]\<rparr>
                     | None \<Rightarrow>
                         v\<lparr>ticks := Suc (Suc (ticks v)), fs_ops := Suc (fs_ops v),
                           written := written v @
                             [(VAULT_ACTIONS @ ''reply_draft_''
                                 @ strftime rt ''%Y%m%d_%H%M%S'' (clock v (ticks v)) @ ''.txt'',
                               Text (''Reply Draft'' @ nl
                                     @ ''Generated: ''
                                     @ strftime rt ''%Y-%m-%d %H:%M:%S''
                                         (clock v (Suc (ticks v))) @ nl
                                     @ ''To: '' @ fmt rt recipient @ nl
                                     @ ''Priority: ''
                                     @ fmt rt (dict_get result ''priority'' (PStr ''MEDIUM''))
                                     @ nl
                                     @ nl @ ''---'' @ nl @ nl
                                     @ fmt rt reply @ nl
                                     @ nl @ ''---'' @ nl @ nl
                                     @ ''Note: This is a draft. Review and send manually.''
                                     @ nl))],
                           stdout := stdout v @
                             [Printed (''  -> Draft saved: '' @ VAULT_ACTIONS @ ''reply_draft_''
                                         @ strftime rt ''%Y%m%d_%H%M%S'' (clock v (ticks v))
                                         @ ''.txt''),
                              Printed (''SUCCESS: '' @ d)]\<rparr>)))
         \<and> (\<forall>action v priority task d.
                py_getitem action ''type'' = Inr (PStr ''create_task'')
              \<and> action_data action ''priority'' = Inr priority
              \<and> action_data action ''task'' = Inr task
              \<and> action_description rt action = Inr d
              \<longrightarrow> attempt_action rt action result v =
                   (Inr (),
                    (case fs_error v (fs_ops v) of
                       Some e \<Rightarrow>
                         v\<lparr>ticks := Suc (Suc (ticks v)), fs_ops := Suc (fs_ops v),
                           stdout := stdout v @
                             [Printed (''ERROR: Failed to execute '' @ d @ '' - ''
                                         @ exn_str e)]\<rparr>
                     | None \<Rightarrow>
                         v\<lparr>ticks := Suc (Suc (ticks v)), fs_ops := Suc (fs_ops v),
                           written := written v @
                             [(VAULT_ACTIONS @ ''task_''
                                 @ strftime rt ''%Y%m%d_%H%M%S'' (clock v (ticks v)) @ ''.txt'',
                               Text (''Task'' @ nl
                                     @ ''Created: ''
                                     @ strftime rt ''%Y-%m-%d %H:%M:%S''
                                         (clock v (Suc (ticks v))) @ nl
                                     @ ''Priority: '' @ fmt rt priority @ nl
                                     @ nl @ ''---'' @ nl @ nl
                                     @ fmt rt task @ nl
                                     @ nl @ ''---'' @ nl @ nl
                                     @ ''Source: ''
                                     @ fmt rt (dict_get result ''sender'' (PStr ''Unknown''))
                                     @ nl
                                     @ ''Category: ''
                                     @ fmt rt (dict_get result ''category'' (PStr ''other''))
                                     @ nl))],
                           stdout := stdout v @
                             [Printed (''  -> Task created: '' @ VAULT_ACTIONS @ ''task_''
                                         @ strftime rt ''%Y%m%d_%H%M%S'' (clock v (ticks v))
                                         @ ''.txt''),
                              Printed (''SUCCESS: '' @ d)]\<rparr>)))"
proof -
  from execute_loop_reports [OF assms, of rt result "execute_banner w"] frame_banner [of w]
  obtain w1 evs where
    w1: "execute_loop rt actions result (execute_banner w) = (Inr (), w1)"
        "w1 = foldl (\<lambda>v a. snd (attempt_action rt a result v)) (execute_banner w) actions"
        "frame w w1" "reports w1 = reports w @ evs" "list_all2 (reported_as rt) actions evs"
    by (auto intro: frame_trans)
  from log_items_loggable [OF assms] obtain items where
    items: "log_items actions = Inr items" "list_all2 logged_as actions items"
    by blast
  have run: "execute_actions rt actions result w = log_execution rt actions result w1"
    by (simp add: execute_actions_def w1(1))
  have fr: "fs_error w1 = fs_error w" "clock w1 = clock w" "audit_entries w1 = audit_entries w"
    using w1(3) by (simp_all add: frame_def)
  have failing: "\<forall>e. fs_error w (fs_ops w1) = Some e \<longrightarrow>
              (\<exists>w'. execute_actions rt actions result w = (Inl e, w')
                    \<and> written w' = written w1
                    \<and> audit_entries w' = audit_entries w)"
    using fr by (simp add: run log_execution_writes [OF items(1)] write_file_def
        audit_entries_def)
  have writing: "fs_error w (fs_ops w1) = None \<longrightarrow>
              (\<exists>w'. execute_actions rt actions result w = (Inr (), w')
                    \<and> written w' = written w1 @
                          [(VAULT_LOGS @ ''execution_''
                              @ strftime rt ''%Y%m%d_%H%M%S'' (clock w (ticks w1)) @ ''.json'',
                            Json (PDict
                              [(''timestamp'', PStr (isoformat rt (clock w (Suc (ticks w1))))),
                               (''sender'', dict_get result ''sender'' PNone),
                               (''priority'', dict_get result ''priority'' PNone),
                               (''category'', dict_get result ''category'' PNone),
                               (''actions_executed'', PInt (int (length actions))),
                               (''actions'', PList items)]))]
                    \<and> audit_entries w' = audit_entries w @
                          [(VAULT_LOGS @ ''execution_''
                              @ strftime rt ''%Y%m%d_%H%M%S'' (clock w (ticks w1)) @ ''.json'',
                            Json (PDict
                              [(''timestamp'', PStr (isoformat rt (clock w (Suc (ticks w1))))),
                               (''sender'', dict_get result ''sender'' PNone),
                               (''priority'', dict_get result ''priority'' PNone),
                               (''category'', dict_get result ''category'' PNone),
                               (''actions_executed'', PInt (int (length actions))),
                               (''actions'', PList items)]))])"
    using fr by (simp add: run log_execution_writes [OF items(1)] write_file_def
        audit_entries_def)
  show ?thesis
    apply (intro conjI)
    subgoal
      apply (rule exI [of _ w1], rule exI [of _ evs], rule exI [of _ items])
      apply (intro conjI)
             apply (rule w1(1))
            apply (rule w1(2))
           apply (rule w1(4))
          apply (rule w1(5))
         apply (rule fr(3))
        apply (rule items(2))
       apply (rule failing)
      apply (rule writing)
      done
    subgoal by (intro allI impI, elim conjE, erule (3) attempt_send_reply)
    subgoal by (intro allI impI, elim conjE, erule (3) attempt_create_task)
    done
qed

text \<open>A run on a disk that refuses the first file: the reply draft is not written and
  its failure is reported, the task file and the audit entry are written.  On a disk
  that refuses the third file both actions succeed and the error of the log file reaches
  the caller.\<close>

lemma sample_loggable: "list_all loggable sample_actions"
  by code_simp

lemma sample_logged:
  "list_all2 logged_as sample_actions items \<Longrightarrow>
   items = [PDict [(''type'', PStr ''send_reply''), (''description'', PStr ''Send suggested reply'')],
            PDict [(''type'', PStr ''create_task''), (''description'', PStr ''Create task: call Bob'')]]"
  by (auto simp: sample_actions_def list_all2_Cons1 logged_as_def send_reply_action_def
        create_task_action_def dict_index_def)

lemma faulty_loop_ops:
  "fs_ops (foldl (\<lambda>v a. snd (attempt_action sample_runtime a sample_record v))
             (execute_banner faulty_disk) sample_actions) = 2"
  by code_simp

lemma faulty_loop_ticks:
  "ticks (foldl (\<lambda>v a. snd (attempt_action sample_runtime a sample_record v))
            (execute_banner faulty_disk) sample_actions) = 4"
  by code_simp

lemma faulty_loop_written:
  "written (foldl (\<lambda>v a. snd (attempt_action sample_runtime a sample_record v))
              (execute_banner faulty_disk) sample_actions)
   = [(''vault/actions/task_20240101_120000.txt'',
       Text (''Task'' @ nl @ ''Created: 2024-01-01 12:00:00'' @ nl @ ''Priority: MEDIUM'' @ nl
             @ nl @ ''---'' @ nl @ nl @ ''call Bob'' @ nl @ nl @ ''---'' @ nl @ nl
             @ ''Source: Unknown'' @ nl @ ''Category: other'' @ nl))]"
  by code_simp

lemma faulty_loop_reports:
  "reports (foldl (\<lambda>v a. snd (attempt_action sample_runtime a sample_record v))
              (execute_banner faulty_disk) sample_actions)
   = [Printed ''ERROR: Failed to execute Send suggested reply - [Errno 28] No space left on device'',
      Printed ''SUCCESS: Create task: call Bob'']"
  by code_simp

lemma full_loop_ops:
  "fs_ops (foldl (\<lambda>v a. snd (attempt_action sample_runtime a sample_record v))
             (execute_banner full_disk) sample_actions) = 2"
  by code_simp

lemma full_loop_written:
  "written (foldl (\<lambda>v a. snd (attempt_action sample_runtime a sample_record v))
              (execute_banner full_disk) sample_actions)
   = [(''vault/actions/reply_draft_20240101_120000.txt'',
       Text (''Reply Draft'' @ nl @ ''Generated: 2024-01-01 12:00:00'' @ nl
             @ ''To: Unknown'' @ nl @ ''Priority: MEDIUM'' @ nl
             @ nl @ ''---'' @ nl @ nl @ ''Hello!'' @ nl @ nl @ ''---'' @ nl @ nl
             @ ''Note: This is a draft. Review and send manually.'' @ nl)),
      (''vault/actions/task_20240101_120000.txt'',
       Text (''Task'' @ nl @ ''Created: 2024-01-01 12:00:00'' @ nl @ ''Priority: MEDIUM'' @ nl
             @ nl @ ''---'' @ nl @ nl @ ''call Bob'' @ nl @ nl @ ''---'' @ nl @ nl
             @ ''Source: Unknown'' @ nl @ ''Category: other'' @ nl))]"
  by code_simp

lemma full_loop_reports:
  "reports (foldl (\<lambda>v a. snd (attempt_action sample_runtime a sample_record v))
              (execute_banner full_disk) sample_actions)
   = [Printed ''SUCCESS: Send suggested reply'', Printed ''SUCCESS: Create task: call Bob'']"
  by code_simp

lemma full_disk_facts:
  "fs_error full_disk 2 = Some (Exn ''OSError'' ''[Errno 28] No space left on device'')"
  "audit_entries full_disk = []" "reports full_disk = []"
  by (simp_all add: full_disk_def sample_world_def audit_entries_def reports_def)

lemma faulty_disk_facts:
  "fs_error faulty_disk 2 = None" "audit_entries faulty_disk = []" "reports faulty_disk = []"
  "sample_actions \<noteq> []"
  by (simp_all add: faulty_disk_def sample_world_def audit_entries_def reports_def
        sample_actions_def)


theorem execute_actions_audit_witness:
  "list_all loggable sample_actions
   \<and> fs_error faulty_disk 0 = Some (Exn ''OSError'' ''[Errno 28] No space left on device'')
   \<and> attempt_action sample_runtime (send_reply_action (PStr ''Hello!'') (PStr ''Unknown''))
        sample_record faulty_disk
      = (Inr (),
         faulty_disk\<lparr>ticks := 2, fs_ops := 1,
           stdout := [Printed (''ERROR: Failed to execute Send suggested reply - ''
                                @ ''[Errno 28] No space left on device'')]\<rparr>)
   \<and> attempt_action sample_runtime
        (create_task_action ''call Bob'' (PStr ''call Bob'') (PStr ''MEDIUM''))
        sample_record (faulty_disk\<lparr>fs_ops := 1\<rparr>)
      = (Inr (),
         faulty_disk\<lparr>ticks := 2, fs_ops := 2,
           written :=
             [(''vault/actions/task_20240101_120000.txt'',
               Text (''Task'' @ nl @ ''Created: 2024-01-01 12:00:00'' @ nl
                     @ ''Priority: MEDIUM'' @ nl
                     @ nl @ ''---'' @ nl @ nl @ ''call Bob'' @ nl @ nl @ ''---'' @ nl @ nl
                     @ ''Source: Unknown'' @ nl @ ''Category: other'' @ nl))],
           stdout :=
             [Printed ''  -> Task created: vault/actions/task_20240101_120000.txt'',
              Printed ''SUCCESS: Create task: call Bob'']\<rparr>)
   \<and> (\<exists>w1 w'.
         execute_loop sample_runtime sample_actions sample_record (execute_banner faulty_disk)
           = (Inr (), w1)
       \<and> reports w1 =
           [Printed ''ERROR: Failed to execute Send suggested reply - [Errno 28] No space left on device'',
            Printed ''SUCCESS: Create task: call Bob'']
       \<and> written w1 =
           [(''vault/actions/task_20240101_120000.txt'',
             Text (''Task'' @ nl @ ''Created: 2024-01-01 12:00:00'' @ nl
                   @ ''Priority: MEDIUM'' @ nl
                   @ nl @ ''---'' @ nl @ nl @ ''call Bob'' @ nl @ nl @ ''---'' @ nl @ nl
                   @ ''Source: Unknown'' @ nl @ ''Category: other'' @ nl))]
       \<and> execute_actions sample_runtime sample_actions sample_record faulty_disk = (Inr (), w')
       \<and> written w' = written w1 @
           [(''vault/logs/execution_20240101_120000.json'',
             Json (PDict
               [(''timestamp'', PStr ''2024-01-01T12:00:00''),
                (''sender'', PStr ''Unknown''),
                (''priority'', PStr ''MEDIUM''),
                (''category'', PStr ''other''),
                (''actions_executed'', PInt 2),
                (''actions'',
                 PList [PDict [(''type'', PStr ''send_reply''),
                               (''description'', PStr ''Send suggested reply'')],
                        PDict [(''type'', PStr ''create_task''),
                               (''description'', PStr ''Create task: call Bob'')]])]))]
       \<and> audit_entries w' =
           [(''vault/logs/execution_20240101_120000.json'',
             Json (PDict
               [(''timestamp'', PStr ''2024-01-01T12:00:00''),
                (''sender'', PStr ''Unknown''),
                (''priority'', PStr ''MEDIUM''),
                (''category'', PStr ''other''),
                (''actions_executed'', PInt 2),
                (''actions'',
                 PList [PDict [(''type'', PStr ''send_reply''),
                               (''description'', PStr ''Send suggested reply'')],
                        PDict [(''type'', PStr ''create_task''),
                               (''description'', PStr ''Create task: call Bob'')]])]))])
   \<and> (\<exists>w1 w'.
         execute_loop sample_runtime sample_actions sample_record (execute_banner full_disk)
           = (Inr (), w1)
       \<and> reports w1 =
           [Printed ''SUCCESS: Send suggested reply'', Printed ''SUCCESS: Create task: call Bob'']
       \<and> execute_actions sample_runtime sample_actions sample_record full_disk
           = (Inl (Exn ''OSError'' ''[Errno 28] No space left on device''), w')
       \<and> written w' =
           [(''vault/actions/reply_draft_20240101_120000.txt'',
             Text (''Reply Draft'' @ nl @ ''Generated: 2024-01-01 12:00:00'' @ nl
                   @ ''To: Unknown'' @ nl @ ''Priority: MEDIUM'' @ nl
                   @ nl @ ''---'' @ nl @ nl @ ''Hello!'' @ nl @ nl @ ''---'' @ nl @ nl
                   @ ''Note: This is a draft. Review and send manually.'' @ nl)),
            (''vault/actions/task_20240101_120000.txt'',
             Text (''Task'' @ nl @ ''Created: 2024-01-01 12:00:00'' @ nl
                   @ ''Priority: MEDIUM'' @ nl
                   @ nl @ ''---'' @ nl @ nl @ ''call Bob'' @ nl @ nl @ ''---'' @ nl @ nl
                   @ ''Source: Unknown'' @ nl @ ''Category: other'' @ nl))]
       \<and> audit_entries w' = [])"
proof -
  note audit = execute_actions_audit [OF sample_loggable, of sample_runtime sample_record
      faulty_disk]
  have refused: "fs_error faulty_disk 0 = Some (Exn ''OSError'' ''[Errno 28] No space left on device'')"
    by (simp add: faulty_disk_def)
  have stamps: "\<And>t. strftime sample_runtime ''%Y%m%d_%H%M%S'' t = ''20240101_120000''"
               "\<And>t. isoformat sample_runtime t = ''2024-01-01T12:00:00''"
    by (simp_all add: sample_runtime_def)
  have len: "length sample_actions = 2"
    by (simp add: sample_actions_def)
  have fields: "dict_get sample_record ''sender'' PNone = PStr ''Unknown''"
               "dict_get sample_record ''priority'' PNone = PStr ''MEDIUM''"
               "dict_get sample_record ''category'' PNone = PStr ''other''"
    by (simp_all add: sample_record_def dict_get_def)
  have reply: "py_getitem (send_reply_action (PStr ''Hello!'') (PStr ''Unknown'')) ''type''
                 = Inr (PStr ''send_reply'')
               \<and> action_data (send_reply_action (PStr ''Hello!'') (PStr ''Unknown'')) ''recipient''
                 = Inr (PStr ''Unknown'')
               \<and> action_data (send_reply_action (PStr ''Hello!'') (PStr ''Unknown'')) ''reply''
                 = Inr (PStr ''Hello!'')
               \<and> action_description sample_runtime
                   (send_reply_action (PStr ''Hello!'') (PStr ''Unknown''))
                 = Inr ''Send suggested reply''"
    by (simp add: send_reply_action_def action_data_def action_description_def dict_index_def
        fmt_def)
  have first: "attempt_action sample_runtime (send_reply_action (PStr ''Hello!'') (PStr ''Unknown''))
        sample_record faulty_disk
      = (Inr (),
         faulty_disk\<lparr>ticks := 2, fs_ops := 1,
           stdout := [Printed (''ERROR: Failed to execute Send suggested reply - ''
                                @ ''[Errno 28] No space left on device'')]\<rparr>)"
    using audit [THEN conjunct2, THEN conjunct1, rule_format,
        where action = "send_reply_action (PStr ''Hello!'') (PStr ''Unknown'')"
          and v = faulty_disk, OF reply]
    by (simp add: faulty_disk_def sample_world_def)
  have batch: "\<exists>w1 w'.
         execute_loop sample_runtime sample_actions sample_record (execute_banner faulty_disk)
           = (Inr (), w1)
       \<and> reports w1 =
           [Printed ''ERROR: Failed to execute Send suggested reply - [Errno 28] No space left on device'',
            Printed ''SUCCESS: Create task: call Bob'']
       \<and> written w1 =
           [(''vault/actions/task_20240101_120000.txt'',
             Text (''Task'' @ nl @ ''Created: 2024-01-01 12:00:00'' @ nl
                   @ ''Priority: MEDIUM'' @ nl
                   @ nl @ ''---'' @ nl @ nl @ ''call Bob'' @ nl @ nl @ ''---'' @ nl @ nl
                   @ ''Source: Unknown'' @ nl @ ''Category: other'' @ nl))]
       \<and> execute_actions sample_runtime sample_actions sample_record faulty_disk = (Inr (), w')
       \<and> written w' = written w1 @
           [(''vault/logs/execution_20240101_120000.json'',
             Json (PDict
               [(''timestamp'', PStr ''2024-01-01T12:00:00''),
                (''sender'', PStr ''Unknown''),
                (''priority'', PStr ''MEDIUM''),
                (''category'', PStr ''other''),
                (''actions_executed'', PInt 2),
                (''actions'',
                 PList [PDict [(''type'', PStr ''send_reply''),
                               (''description'', PStr ''Send suggested reply'')],
                        PDict [(''type'', PStr ''create_task''),
                               (''description'', PStr ''Create task: call Bob'')]])]))]
       \<and> audit_entries w' =
           [(''vault/logs/execution_20240101_120000.json'',
             Json (PDict
               [(''timestamp'', PStr ''2024-01-01T12:00:00''),
                (''sender'', PStr ''Unknown''),
                (''priority'', PStr ''MEDIUM''),
                (''category'', PStr ''other''),
                (''actions_executed'', PInt 2),
                (''actions'',
                 PList [PDict [(''type'', PStr ''send_reply''),
                               (''description'', PStr ''Send suggested reply'')],
                        PDict [(''type'', PStr ''create_task''),
                               (''description'', PStr ''Create task: call Bob'')]])]))]"
    using audit [THEN conjunct1]
    apply (elim exE conjE)
    apply (drule sample_logged)
    apply (simp add: faulty_loop_ops faulty_loop_ticks faulty_loop_written faulty_loop_reports
        faulty_disk_facts len fields stamps VAULT_LOGS_def)
    done
  have task: "py_getitem (create_task_action ''call Bob'' (PStr ''call Bob'') (PStr ''MEDIUM''))
                  ''type''
                = Inr (PStr ''create_task'')
              \<and> action_data (create_task_action ''call Bob'' (PStr ''call Bob'') (PStr ''MEDIUM''))
                  ''priority''
                = Inr (PStr ''MEDIUM'')
              \<and> action_data (create_task_action ''call Bob'' (PStr ''call Bob'') (PStr ''MEDIUM''))
                  ''task''
                = Inr (PStr ''call Bob'')
              \<and> action_description sample_runtime
                  (create_task_action ''call Bob'' (PStr ''call Bob'') (PStr ''MEDIUM''))
                = Inr ''Create task: call Bob''"
    by (simp add: create_task_action_def action_data_def action_description_def dict_index_def
        fmt_def)
  have defaults: "dict_get sample_record ''sender'' (PStr ''Unknown'') = PStr ''Unknown''"
                 "dict_get sample_record ''category'' (PStr ''other'') = PStr ''other''"
    by (simp_all add: sample_record_def dict_get_def)
  have second: "attempt_action sample_runtime
        (create_task_action ''call Bob'' (PStr ''call Bob'') (PStr ''MEDIUM''))
        sample_record (faulty_disk\<lparr>fs_ops := 1\<rparr>)
      = (Inr (),
         faulty_disk\<lparr>ticks := 2, fs_ops := 2,
           written :=
             [(''vault/actions/task_20240101_120000.txt'',
               Text (''Task'' @ nl @ ''Created: 2024-01-01 12:00:00'' @ nl
                     @ ''Priority: MEDIUM'' @ nl
                     @ nl @ ''---'' @ nl @ nl @ ''call Bob'' @ nl @ nl @ ''---'' @ nl @ nl
                     @ ''Source: Unknown'' @ nl @ ''Category: other'' @ nl))],
           stdout :=
             [Printed ''  -> Task created: vault/actions/task_20240101_120000.txt'',
              Printed ''SUCCESS: Create task: call Bob'']\<rparr>)"
    using audit [THEN conjunct2, THEN conjunct2, rule_format,
        where action = "create_task_action ''call Bob'' (PStr ''call Bob'') (PStr ''MEDIUM'')"
          and v = "faulty_disk\<lparr>fs_ops := 1\<rparr>", OF task]
    by (simp add: faulty_disk_def sample_world_def sample_runtime_def defaults fmt_def
        VAULT_ACTIONS_def)
  have unlogged: "\<exists>w1 w'.
         execute_loop sample_runtime sample_actions sample_record (execute_banner full_disk)
           = (Inr (), w1)
       \<and> reports w1 =
           [Printed ''SUCCESS: Send suggested reply'', Printed ''SUCCESS: Create task: call Bob'']
       \<and> execute_actions sample_runtime sample_actions sample_record full_disk
           = (Inl (Exn ''OSError'' ''[Errno 28] No space left on device''), w')
       \<and> written w' =
           [(''vault/actions/reply_draft_20240101_120000.txt'',
             Text (''Reply Draft'' @ nl @ ''Generated: 2024-01-01 12:00:00'' @ nl
                   @ ''To: Unknown'' @ nl @ ''Priority: MEDIUM'' @ nl
                   @ nl @ ''---'' @ nl @ nl @ ''Hello!'' @ nl @ nl @ ''---'' @ nl @ nl
                   @ ''Note: This is a draft. Review and send manually.'' @ nl)),
            (''vault/actions/task_20240101_120000.txt'',
             Text (''Task'' @ nl @ ''Created: 2024-01-01 12:00:00'' @ nl
                   @ ''Priority: MEDIUM'' @ nl
                   @ nl @ ''---'' @ nl @ nl @ ''call Bob'' @ nl @ nl @ ''---'' @ nl @ nl
                   @ ''Source: Unknown'' @ nl @ ''Category: other'' @ nl))]
       \<and> audit_entries w' = []"
    using execute_actions_audit [OF sample_loggable, of sample_runtime sample_record full_disk,
        THEN conjunct1]
    apply (elim exE conjE)
    apply (simp add: full_loop_ops full_loop_written full_loop_reports full_disk_facts)
    done
  from sample_loggable refused first second batch unlogged show ?thesis
    by (intro conjI)
qed

section \<open>The tool registry and the agent loop contain failures\<close>

lemma bind_kwargs_message:
  "bind_kwargs fname params arguments = Inl e \<Longrightarrow> exn_str e \<noteq> []"
  by (auto simp: bind_kwargs_def split: pyval.splits option.splits if_splits)

lemma as_text_message: "as_text method c = Inl e \<Longrightarrow> exn_str e \<noteq> []"
  by (auto simp: as_text_def split: pyval.splits)

lemma content_of_message:
  "content_of fname method params arguments = Inl e \<Longrightarrow> exn_str e \<noteq> []"
  by (auto simp: content_of_def split: sum.splits
      dest: bind_kwargs_message as_text_message)

lemma tool_error_message:
  assumes "map_of TOOLS tool_name = Some tool_func" and "tool_func rt arguments = Inl e"
  shows "exn_str e \<noteq> []"
proof -
  from assms(1) have "tool_func \<in> {summarizer_tool, reply_suggester_tool, task_extractor_tool,
      priority_detector_tool, categorizer_tool}"
    by (auto simp: TOOLS_def split: if_splits)
  with assms(2) show ?thesis
    by (auto simp: summarizer_tool_def reply_suggester_tool_def task_extractor_tool_def
        priority_detector_tool_def categorizer_tool_def
        split: sum.splits dest: content_of_message bind_kwargs_message as_text_message)
qed

text \<open>
  Claim C5.  \<open>execute_tool\<close> returns a dictionary on every input.  For a name that is
  not in the registry the dictionary is the error result naming the unknown tool.  For
  a registered tool whose analyzer raises, it is the error result whose text is the
  message of that exception, and that message is not empty.  Otherwise it is the
  analyzer's result.
\<close>

theorem execute_tool_contains_errors:
  "(map_of TOOLS tool_name = None \<longrightarrow>
      execute_tool rt tool_name arguments = [(''error'', PStr (''Unknown tool: '' @ tool_name))])
   \<and> (\<forall>tool_func e. map_of TOOLS tool_name = Some tool_func \<and> tool_func rt arguments = Inl e
        \<longrightarrow> execute_tool rt tool_name arguments = [(''error'', PStr (exn_str e))]
            \<and> exn_str e \<noteq> [])
   \<and> (\<forall>tool_func result. map_of TOOLS tool_name = Some tool_func
          \<and> tool_func rt arguments = Inr result
        \<longrightarrow> execute_tool rt tool_name arguments = result)"
  using tool_error_message by (auto simp: execute_tool_def)

theorem execute_tool_contains_errors_witness:
  "execute_tool sample_runtime ''translator'' (PDict []) =
     [(''error'', PStr ''Unknown tool: translator'')]
   \<and> execute_tool sample_runtime ''summarizer'' (PDict []) =
     [(''error'', PStr (''summarizer_tool() missing 1 required positional argument: ''
          @ [CHR 0x27] @ ''content'' @ [CHR 0x27]))]
   \<and> execute_tool sample_runtime ''priority_detector'' (PDict [(''content'', PStr ''asap'')]) =
     detect_priority sample_runtime ''asap''"
proof -
  have none: "map_of TOOLS ''translator'' = None"
    by (simp add: TOOLS_def)
  have some: "map_of TOOLS ''summarizer'' = Some summarizer_tool"
    by (simp add: TOOLS_def)
  have fails: "summarizer_tool sample_runtime (PDict []) =
      Inl (Exn ''TypeError'' (''summarizer_tool() missing 1 required positional argument: ''
          @ [CHR 0x27] @ ''content'' @ [CHR 0x27]))"
    by (simp add: summarizer_tool_def content_of_def bind_kwargs_def)
  have some2: "map_of TOOLS ''priority_detector'' = Some priority_detector_tool"
    by (simp add: TOOLS_def)
  have works: "priority_detector_tool sample_runtime (PDict [(''content'', PStr ''asap'')]) =
      Inr (detect_priority sample_runtime ''asap'')"
    by (simp add: priority_detector_tool_def content_of_def bind_kwargs_def as_text_def
        dict_get_def)
  from execute_tool_contains_errors [of "''translator''" sample_runtime "PDict []"]
       execute_tool_contains_errors [of "''summarizer''" sample_runtime "PDict []"]
       execute_tool_contains_errors [of "''priority_detector''" sample_runtime
          "PDict [(''content'', PStr ''asap'')]"]
       none some fails some2 works
  show ?thesis by simp
qed

text \<open>The loop stops at the first call whose arguments do not parse, and only there.\<close>

lemma run_tool_calls_first_failure:
  assumes "list_all (parses rt) before"
      and "json_loads rt (tc_arguments bad) = Inl e"
  shows "run_tool_calls rt (before @ bad # after) tool_results messages = Inl e"
  using assms
  by (induction before arbitrary: tool_results messages)
     (auto simp: Let_def parses_def split: sum.splits)

lemma run_tool_calls_all_parse:
  assumes "list_all (parses rt) calls"
  shows "\<exists>st. run_tool_calls rt calls tool_results messages = Inr st"
  using assms
  by (induction calls arbitrary: tool_results messages)
     (auto simp: Let_def parses_def split: sum.splits)

lemma run_tool_calls_failure_is_parse:
  assumes "run_tool_calls rt calls tool_results messages = Inl e"
  shows "\<exists>tc\<in>set calls. json_loads rt (tc_arguments tc) = Inl e"
  using assms
  by (induction calls arbitrary: tool_results messages)
     (auto simp: Let_def split: sum.splits)

text \<open>
  Claim C4.  Whatever raises inside the \<open>try\<close> of \<open>analyze_message\<close> is caught there, and
  the function returns the error payload: the diagnostic text of the exception, with the
  message and the sender as they were passed in.  In particular this is so when the
  planning call raises, when the loop over the tool calls raises, and when the synthesis
  call raises.  (An exception inside an analyzer never reaches the loop: \<open>execute_tool\<close>
  has turned it into an error result.)
\<close>

theorem analyze_message_error_payload:
  "(analyze_message_try rt client message sender = Inl e \<longrightarrow>
       analyze_message rt client message sender = error_payload e message sender)
   \<and> (client (planning_request message) True = Inl e \<longrightarrow>
       analyze_message rt client message sender = error_payload e message sender)
   \<and> (\<forall>reply. client (planning_request message) True = Inr reply
         \<and> run_tool_calls rt (msg_tool_calls reply) [] (planning_request message) = Inl e
       \<longrightarrow> analyze_message rt client message sender = error_payload e message sender)
   \<and> (\<forall>reply tool_results transcript. client (planning_request message) True = Inr reply
         \<and> msg_tool_calls reply \<noteq> []
         \<and> run_tool_calls rt (msg_tool_calls reply) [] (planning_request message)
             = Inr (tool_results, transcript)
         \<and> client transcript False = Inl e
       \<longrightarrow> analyze_message rt client message sender = error_payload e message sender)
   \<and> dict_get (error_payload e message sender) ''message'' PNone = PStr message
   \<and> dict_get (error_payload e message sender) ''sender'' (PStr ''?'') = opt_str sender
   \<and> dict_get (error_payload e message sender) ''error'' PNone = PStr (exn_str e)"
proof -
  have calls: "\<And>reply. run_tool_calls rt (msg_tool_calls reply) [] (planning_request message) = Inl e
      \<Longrightarrow> msg_tool_calls reply \<noteq> []"
    by auto
  show ?thesis
    using calls
    by (auto simp: analyze_message_def analyze_message_try_def planning_request_def [symmetric]
        Let_def error_payload_def dict_get_def)
qed

lemma offline_fails:
  "offline_client (planning_request ''hi'') True = Inl (Exn ''APIConnectionError'' ''Connection error.'')"
  by (simp add: offline_client_def)

theorem analyze_message_error_payload_witness:
  "offline_client (planning_request ''hi'') True
      = Inl (Exn ''APIConnectionError'' ''Connection error.'')
   \<and> analyze_message sample_runtime offline_client ''hi'' (Some ''Bob'')
      = [(''error'', PStr ''Connection error.''), (''message'', PStr ''hi''),
         (''sender'', PStr ''Bob'')]
   \<and> analyze_message sample_runtime (tools_client [unparsable_call]) ''hi'' None
      = [(''error'', PStr ''Expecting value: line 1 column 1 (char 0)''),
         (''message'', PStr ''hi''), (''sender'', PNone)]
   \<and> analyze_message sample_runtime (dropping_client [summarizer_call]) ''hi'' None
      = [(''error'', PStr ''Request timed out.''), (''message'', PStr ''hi''),
         (''sender'', PNone)]"
proof -
  have parse: "run_tool_calls sample_runtime
        (msg_tool_calls \<lparr>msg_content = None, msg_tool_calls = [unparsable_call]\<rparr>) []
        (planning_request ''hi'')
      = Inl (Exn ''JSONDecodeError'' ''Expecting value: line 1 column 1 (char 0)'')"
    by (simp add: unparsable_call_def sample_call_def sample_runtime_def)
  have plan2: "tools_client [unparsable_call] (planning_request ''hi'') True
      = Inr \<lparr>msg_content = None, msg_tool_calls = [unparsable_call]\<rparr>"
    by (simp add: tools_client_def)
  have plan3: "dropping_client [summarizer_call] (planning_request ''hi'') True
      = Inr \<lparr>msg_content = None, msg_tool_calls = [summarizer_call]\<rparr>"
    by (simp add: dropping_client_def)
  obtain st where run3: "run_tool_calls sample_runtime
        (msg_tool_calls \<lparr>msg_content = None, msg_tool_calls = [summarizer_call]\<rparr>) []
        (planning_request ''hi'') = Inr st"
    using run_tool_calls_all_parse [of sample_runtime "[summarizer_call]" "[]" "planning_request ''hi''"]
    by (auto simp: parses_def summarizer_call_def sample_call_def sample_runtime_def)
  obtain tr ms where st: "st = (tr, ms)" by (cases st)
  have synth3: "dropping_client [summarizer_call] ms False
      = Inl (Exn ''APITimeoutError'' ''Request timed out.'')"
    by (simp add: dropping_client_def)
  from analyze_message_error_payload
         [of sample_runtime offline_client "''hi''" "Some ''Bob''"
             "Exn ''APIConnectionError'' ''Connection error.''"]
       analyze_message_error_payload
         [of sample_runtime "tools_client [unparsable_call]" "''hi''" None
             "Exn ''JSONDecodeError'' ''Expecting value: line 1 column 1 (char 0)''"]
       analyze_message_error_payload
         [of sample_runtime "dropping_client [summarizer_call]" "''hi''" None
             "Exn ''APITimeoutError'' ''Request timed out.''"]
       offline_fails parse plan2 plan3 run3 st synth3
  show ?thesis
    by (simp add: error_payload_def opt_str_def)
qed

text \<open>
  Claim C6, as the code has it.  When the planning call asks for several tool calls and
  the arguments of one of them do not parse, the round is aborted: the exception leaves
  the loop, the results collected from the calls before it are dropped, the calls after
  it are never executed, and \<open>analyze_message\<close> returns the error payload, whose only
  fields are the diagnostic, the message and the sender.
\<close>

theorem parse_failure_aborts_round:
  assumes "client (planning_request message) True = Inr reply"
      and "msg_tool_calls reply = before @ bad # after"
      and "list_all (parses rt) before"
      and "json_loads rt (tc_arguments bad) = Inl e"
  shows "analyze_message rt client message sender = error_payload e message sender
       \<and> map fst (analyze_message rt client message sender) = [''error'', ''message'', ''sender'']"
proof -
  have "run_tool_calls rt (msg_tool_calls reply) [] (planning_request message) = Inl e"
    using run_tool_calls_first_failure [OF assms(3,4)] assms(2) by simp
  then have "analyze_message_try rt client message sender = Inl e"
    using assms(1,2)
    by (simp add: analyze_message_try_def planning_request_def [symmetric] Let_def)
  then show ?thesis
    by (simp add: analyze_message_def error_payload_def)
qed

lemma sample_plan:
  "tools_client calls (planning_request message) True
     = Inr \<lparr>msg_content = None, msg_tool_calls = calls\<rparr>"
  by (simp add: tools_client_def)

lemma summarizer_call_parses: "list_all (parses sample_runtime) [summarizer_call]"
  by code_simp

lemma unparsable_call_fails:
  "json_loads sample_runtime (tc_arguments unparsable_call)
     = Inl (Exn ''JSONDecodeError'' ''Expecting value: line 1 column 1 (char 0)'')"
  by code_simp

theorem parse_failure_aborts_round_witness:
  "list_all (parses sample_runtime) [summarizer_call]
   \<and> json_loads sample_runtime (tc_arguments unparsable_call)
       = Inl (Exn ''JSONDecodeError'' ''Expecting value: line 1 column 1 (char 0)'')
   \<and> analyze_message sample_runtime
        (tools_client [summarizer_call, unparsable_call, categorizer_call]) ''hi'' None
       = [(''error'', PStr ''Expecting value: line 1 column 1 (char 0)''),
          (''message'', PStr ''hi''), (''sender'', PNone)]"
proof -
  from parse_failure_aborts_round
         [where client = "tools_client [summarizer_call, unparsable_call, categorizer_call]"
            and message = "''hi''" and sender = None and rt = sample_runtime
            and reply = "\<lparr>msg_content = None,
                  msg_tool_calls = [summarizer_call, unparsable_call, categorizer_call]\<rparr>"
            and before = "[summarizer_call]" and bad = unparsable_call
            and after = "[categorizer_call]"
            and e = "Exn ''JSONDecodeError'' ''Expecting value: line 1 column 1 (char 0)''"]
    sample_plan summarizer_call_parses unparsable_call_fails
  show ?thesis by (simp add: error_payload_def opt_str_def)
qed

text \<open>
  One call's parse failure is not contained to that call.  With a summarizer call alone
  the record carries the summary; with an unparsable call after it the summary already
  collected is gone from the result, and the call after the unparsable one leaves no
  trace either.
\<close>

theorem parse_failure_contained_counterexample:
  "map_of (analyze_message sample_runtime (tools_client [summarizer_call]) ''hi'' None)
       ''summary'' = Some (PStr ''hi'')
   \<and> map_of (analyze_message sample_runtime
        (tools_client [summarizer_call, unparsable_call, categorizer_call]) ''hi'' None)
       ''summary'' = None
   \<and> map_of (analyze_message sample_runtime
        (tools_client [summarizer_call, unparsable_call, categorizer_call]) ''hi'' None)
       ''category'' = None
   \<and> analyze_message sample_runtime
        (tools_client [summarizer_call, unparsable_call, categorizer_call]) ''hi'' None
       = error_payload (Exn ''JSONDecodeError'' ''Expecting value: line 1 column 1 (char 0)'')
           ''hi'' None"
  by code_simp

section \<open>Assembled records: labels, defaults and derived actions\<close>

lemma priority_label_cases:
  "priority_label u l t \<in> {''urgent'', ''low'', ''normal'', ''normal_urgent''}"
  by (simp add: priority_label_def Let_def)

lemma detect_priority_priority:
  "dict_get (detect_priority rt content) ''priority'' dflt \<in> PRIORITIES"
proof -
  have "(case map_of priority_map (priority_label u l t) of None \<Rightarrow> ''MEDIUM'' | Some p \<Rightarrow> p)
          \<in> {''HIGH'', ''MEDIUM'', ''LOW''}" for u l t
    using priority_label_cases [of u l t] by (auto simp: priority_map_def)
  then show ?thesis
    by (simp add: detect_priority_def Let_def dict_get_def PRIORITIES_def)
qed

lemma max_key_member: "fst (max_key xs best) \<in> fst ` (insert best (set xs))"
  by (induction xs arbitrary: best) auto

lemma category_scores_keys:
  "map fst (category_scores c) = [''work'', ''personal'', ''study'', ''finance'']"
  by (simp add: category_scores_def categories_def)

lemma category_choice_label:
  "fst (category_choice rt (category_scores c) n)
     \<in> {''work'', ''personal'', ''study'', ''finance'', ''other''}"
proof -
  let ?scores = "category_scores c"
  have ne: "?scores \<noteq> []" using category_scores_keys [of c] by auto
  then have "insert (hd ?scores) (set (tl ?scores)) = set ?scores"
    by (cases ?scores) auto
  then have "fst (max_key (tl ?scores) (hd ?scores)) \<in> fst ` set ?scores"
    using max_key_member [of "tl ?scores" "hd ?scores"] by simp
  also have "fst ` set ?scores = set (map fst ?scores)" by simp
  also have "\<dots> = {''work'', ''personal'', ''study'', ''finance''}"
    by (simp only: category_scores_keys) auto
  finally have "fst (max_key (tl ?scores) (hd ?scores))
      \<in> {''work'', ''personal'', ''study'', ''finance''}" .
  then show ?thesis
    by (auto simp: category_choice_def Let_def split: prod.splits)
qed

lemma categorize_content_category:
  "dict_get (categorize_content rt content) ''category'' dflt \<in> CATEGORIES"
  using category_choice_label [of rt "lower content" "length (split_ws content)"]
  by (auto simp: categorize_content_def Let_def dict_get_def CATEGORIES_def split: prod.splits)

lemma suggestions_for_shape:
  "\<exists>a b c rest. suggestions_for t = a # b # c # rest \<and> a \<noteq> []"
  by (simp add: suggestions_for_def)

lemma suggest_reply_suggestions:
  "\<exists>a rest. a \<noteq> [] \<and> dict_get (suggest_reply content sender) ''suggestions'' dflt
      = PList (PStr a # rest)"
  using suggestions_for_shape [of "message_type_of (lower content)"]
  by (auto simp: suggest_reply_def Let_def dict_get_def)

lemma extract_tasks_tasks:
  "dict_get (extract_tasks rt content) ''tasks'' dflt
     = PList (map (\<lambda>it. structured_task (fst it) (snd it))
          (enumerate 0 (potential_tasks_of rt content)))"
  by (simp add: extract_tasks_def Let_def dict_get_def)

lemma generate_summary_summary:
  "\<exists>s. dict_get (generate_summary rt content) ''summary'' dflt = PStr s"
  by (simp add: generate_summary_def Let_def dict_get_def)

text \<open>What the registry returns under each of the five names.\<close>

lemma error_result_get: "k \<noteq> ''error'' \<Longrightarrow> dict_get [(''error'', v)] k dflt = dflt"
  by (simp add: dict_get_def)

lemma default_labels: "PStr ''MEDIUM'' \<in> PRIORITIES" "PStr ''other'' \<in> CATEGORIES"
  by (simp_all add: PRIORITIES_def CATEGORIES_def)

lemma execute_tool_priority_detector:
  "dict_get (execute_tool rt ''priority_detector'' args) ''priority'' (PStr ''MEDIUM'') \<in> PRIORITIES"
  by (auto simp: execute_tool_def TOOLS_def priority_detector_tool_def error_result_get
      detect_priority_priority default_labels split: sum.splits)

lemma execute_tool_categorizer:
  "dict_get (execute_tool rt ''categorizer'' args) ''category'' (PStr ''other'') \<in> CATEGORIES"
  by (auto simp: execute_tool_def TOOLS_def categorizer_tool_def error_result_get
      categorize_content_category default_labels split: sum.splits)

lemma execute_tool_summarizer:
  "\<exists>s. dict_get (execute_tool rt ''summarizer'' args) ''summary'' (PStr []) = PStr s"
  using generate_summary_summary
  by (auto simp: execute_tool_def TOOLS_def summarizer_tool_def error_result_get
      split: sum.splits)

lemma execute_tool_reply_suggester:
  "dict_get (execute_tool rt ''reply_suggester'' args) ''suggestions'' (PList []) = PList []
   \<or> (\<exists>a rest. a \<noteq> [] \<and>
        dict_get (execute_tool rt ''reply_suggester'' args) ''suggestions'' (PList [])
          = PList (PStr a # rest))"
  using suggest_reply_suggestions
  by (auto simp: execute_tool_def TOOLS_def reply_suggester_tool_def error_result_get
      split: sum.splits)

lemma execute_tool_task_extractor:
  "\<exists>ts. dict_get (execute_tool rt ''task_extractor'' args) ''tasks'' (PList []) = PList ts"
  by (auto simp: execute_tool_def TOOLS_def task_extractor_tool_def error_result_get
      extract_tasks_tasks split: sum.splits)

lemma run_tool_calls_entries:
  assumes "run_tool_calls rt calls tr0 ms0 = Inr (tr, ms)" and "map_of tr n = Some d"
  shows "map_of tr0 n = Some d \<or> (\<exists>args. d = execute_tool rt n args)"
  using assms
proof (induction calls arbitrary: tr0 ms0)
  case Nil
  then show ?case by simp
next
  case (Cons tc rest)
  from Cons.prems(1) obtain v where
    v: "json_loads rt (tc_arguments tc) = Inr v" and
    run: "run_tool_calls rt rest (dict_set tr0 (tc_name tc) (execute_tool rt (tc_name tc) v))
            (ms0 @ [AssistantCall tc, ToolMsg (tc_id tc) (execute_tool rt (tc_name tc) v)])
          = Inr (tr, ms)"
    by (auto simp: Let_def split: sum.splits)
  from Cons.IH [OF run Cons.prems(2)] show ?case
    by (auto simp: map_of_dict_set split: if_splits)
qed

lemma run_tool_calls_from_registry:
  assumes "run_tool_calls rt calls [] ms0 = Inr (tr, ms)" and "map_of tr n = Some d"
  shows "\<exists>args. d = execute_tool rt n args"
  using run_tool_calls_entries [OF assms] by simp

text \<open>Action derivation on a record that has its fields.\<close>

lemma create_task_actions_map:
  "map_of a ''priority'' = Some p \<Longrightarrow>
   create_task_actions rt a ts = Inr (map (\<lambda>t. create_task_action (fmt rt t) t p) ts)"
  by (induction ts) (simp_all add: dict_index_def)

lemma determine_actions_shape:
  assumes "map_of a ''sender'' = Some sender" and "map_of a ''priority'' = Some p"
      and "map_of a ''tasks'' = Some (PList ts)" and "map_of a ''suggested_reply'' = Some r"
  shows "determine_actions rt a =
           Inr ((if truthy r then [send_reply_action r sender] else [])
                @ map (\<lambda>t. create_task_action (fmt rt t) t p) ts)"
  using assms
  by (cases "ts = []")
     (simp_all add: determine_actions_def dict_get_def dict_index_def create_task_actions_map)

lemma take_steps:
  assumes "listlike_suggestions tr"
  shows "take_reply tr (take_category tr (take_priority tr (take_summary tr
           (initial_output message sender synthesis))))
         = Inr (butlast (assembled message sender tr synthesis)
                @ [(''tasks'', PList []), (''actions'', PList [])])"
proof -
  have sender: "(if truthy (opt_str sender) then opt_str sender else PStr ''Unknown'')
      = PStr (case sender of None \<Rightarrow> ''Unknown'' | Some s \<Rightarrow> if s = [] then ''Unknown'' else s)"
    by (simp add: opt_str_def split: option.splits)
  show ?thesis
  proof (cases "map_of tr ''reply_suggester''")
    case None
    then show ?thesis
      by (simp add: take_reply_def take_category_def take_priority_def take_summary_def
          initial_output_def assembled_def dict_set_def sender split: option.splits)
  next
    case (Some d)
    with assms obtain xs where xs: "dict_get d ''suggestions'' (PList []) = PList xs"
      by (auto simp: listlike_suggestions_def split: pyval.splits)
    show ?thesis
    proof (cases xs)
      case Nil
      with Some xs show ?thesis
        by (simp add: take_reply_def take_category_def take_priority_def take_summary_def
            initial_output_def assembled_def dict_set_def sender first_suggestion_def Let_def
            split: option.splits)
    next
      case (Cons x rest)
      with Some xs show ?thesis
        by (simp add: take_reply_def take_category_def take_priority_def take_summary_def
            initial_output_def assembled_def dict_set_def sender first_suggestion_def Let_def
            split: option.splits)
    qed
  qed
qed

lemma take_tasks_assembled:
  "take_tasks tr (butlast (assembled message sender tr synthesis)
                   @ [(''tasks'', PList []), (''actions'', PList [])])
   = assembled message sender tr synthesis @ [(''actions'', PList [])]"
  by (simp add: take_tasks_def assembled_def dict_set_def split: option.splits)

lemma determine_actions_assembled:
  assumes "listlike_tasks tr"
  shows "determine_actions rt (assembled message sender tr synthesis @ [(''actions'', v)])
         = Inr (derived_actions rt (assembled message sender tr synthesis))"
proof -
  let ?a = "assembled message sender tr synthesis"
  from assms obtain ts where ts: "map_of ?a ''tasks'' = Some (PList ts)"
    by (auto simp: listlike_tasks_def assembled_def split: option.splits pyval.splits)
  obtain snd p r where f: "map_of ?a ''sender'' = Some snd" "map_of ?a ''priority'' = Some p"
      "map_of ?a ''suggested_reply'' = Some r"
    by (simp add: assembled_def)
  have keys: "map_of (?a @ [(''actions'', v)]) k = map_of ?a k" if "k \<noteq> ''actions''" for k
    using that by (simp add: map_add_def split: option.splits)
  from determine_actions_shape [of "?a @ [(''actions'', v)]" snd p ts r rt] ts f
  show ?thesis
    by (simp add: keys derived_actions_def dict_get_def Let_def)
qed

lemma structure_output_assembled:
  assumes "listlike_suggestions tr" and "listlike_tasks tr"
  shows "structure_output rt message sender tr synthesis
         = Inr (assembled message sender tr synthesis
                @ [(''actions'', PList (derived_actions rt (assembled message sender tr synthesis)))])"
proof -
  have "dict_set (assembled message sender tr synthesis @ [(''actions'', PList [])]) ''actions'' v
        = assembled message sender tr synthesis @ [(''actions'', v)]" for v
    by (simp add: assembled_def dict_set_def)
  then show ?thesis
    by (simp add: structure_output_def take_steps [OF assms(1)] take_tasks_assembled
        determine_actions_assembled [OF assms(2)] Let_def)
qed

lemma registry_results_listlike:
  assumes "run_tool_calls rt calls [] ms0 = Inr (tr, ms)"
  shows "listlike_suggestions tr" and "listlike_tasks tr"
proof -
  show "listlike_suggestions tr"
  proof (cases "map_of tr ''reply_suggester''")
    case None
    then show ?thesis by (simp add: listlike_suggestions_def)
  next
    case (Some d)
    from run_tool_calls_from_registry [OF assms Some] obtain args where
      "d = execute_tool rt ''reply_suggester'' args" by blast
    with execute_tool_reply_suggester [of rt args] Some show ?thesis
      by (auto simp: listlike_suggestions_def)
  qed
  show "listlike_tasks tr"
  proof (cases "map_of tr ''task_extractor''")
    case None
    then show ?thesis by (simp add: listlike_tasks_def)
  next
    case (Some d)
    from run_tool_calls_from_registry [OF assms Some] obtain args where
      "d = execute_tool rt ''task_extractor'' args" by blast
    with execute_tool_task_extractor [of rt args] Some show ?thesis
      by (auto simp: listlike_tasks_def)
  qed
qed

lemma registry_results_labels:
  assumes "run_tool_calls rt calls [] ms0 = Inr (tr, ms)"
  shows "dict_get (assembled message sender tr synthesis) ''priority'' PNone \<in> PRIORITIES"
    and "dict_get (assembled message sender tr synthesis) ''category'' PNone \<in> CATEGORIES"
proof -
  show "dict_get (assembled message sender tr synthesis) ''priority'' PNone \<in> PRIORITIES"
  proof (cases "map_of tr ''priority_detector''")
    case None
    then show ?thesis by (simp add: assembled_def dict_get_def default_labels)
  next
    case (Some d)
    from run_tool_calls_from_registry [OF assms Some] obtain args where
      "d = execute_tool rt ''priority_detector'' args" by blast
    with execute_tool_priority_detector [of rt args] Some show ?thesis
      by (simp add: assembled_def dict_get_def)
  qed
  show "dict_get (assembled message sender tr synthesis) ''category'' PNone \<in> CATEGORIES"
  proof (cases "map_of tr ''categorizer''")
    case None
    then show ?thesis by (simp add: assembled_def dict_get_def default_labels)
  next
    case (Some d)
    from run_tool_calls_from_registry [OF assms Some] obtain args where
      "d = execute_tool rt ''categorizer'' args" by blast
    with execute_tool_categorizer [of rt args] Some show ?thesis
      by (simp add: assembled_def dict_get_def)
  qed
qed

text \<open>The direct path.\<close>

lemma suggest_reply_first:
  "\<exists>a rest. a \<noteq> [] \<and> map_of (suggest_reply content sender) ''suggestions''
      = Some (PList (PStr a # rest))"
  using suggestions_for_shape [of "message_type_of (lower content)"]
  by (auto simp: suggest_reply_def Let_def)

lemma task_title_structured:
  "task_title_of rt (structured_task i task) = Inr (PStr (take 100 task))"
  by (simp add: task_title_of_def structured_task_def dict_get_def)

lemma direct_task_actions_structured:
  "direct_task_actions rt p (map (\<lambda>it. structured_task (fst it) (snd it)) its)
   = Inr (map (\<lambda>it. create_task_action (take 100 (snd it)) (PStr (take 100 (snd it))) p) its)"
  by (induction its) (simp_all add: task_title_structured fmt_def)

lemma analyze_with_skills_result:
  "\<exists>reply. reply \<noteq> [] \<and>
     analyze_with_skills rt message sender =
       Inr [(''sender'', PStr sender),
            (''message'', PStr message),
            (''summary'', dict_get (generate_summary rt message) ''summary'' (PStr [])),
            (''priority'', dict_get (detect_priority rt message) ''priority'' (PStr ''MEDIUM'')),
            (''category'', dict_get (categorize_content rt message) ''category'' (PStr ''other'')),
            (''suggested_reply'', PStr reply),
            (''tasks'', PList (map (\<lambda>it. structured_task (fst it) (snd it))
                                (enumerate 0 (potential_tasks_of rt message)))),
            (''actions'', PList (send_reply_action (PStr reply) (PStr sender)
               # map (\<lambda>it. create_task_action (take 100 (snd it)) (PStr (take 100 (snd it)))
                             (dict_get (detect_priority rt message) ''priority'' (PStr ''MEDIUM'')))
                   (enumerate 0 (potential_tasks_of rt message))))]"
proof -
  from suggest_reply_first [of message "PStr sender"] obtain reply rest where
    r: "reply \<noteq> []"
       "map_of (suggest_reply message (PStr sender)) ''suggestions'' = Some (PList (PStr reply # rest))"
    by blast
  have sug: "dict_get (suggest_reply message (PStr sender)) ''suggestions'' dflt
      = PList (PStr reply # rest)" for dflt
    by (simp add: dict_get_def r(2))
  have "analyze_with_skills rt message sender =
       Inr [(''sender'', PStr sender),
            (''message'', PStr message),
            (''summary'', dict_get (generate_summary rt message) ''summary'' (PStr [])),
            (''priority'', dict_get (detect_priority rt message) ''priority'' (PStr ''MEDIUM'')),
            (''category'', dict_get (categorize_content rt message) ''category'' (PStr ''other'')),
            (''suggested_reply'', PStr reply),
            (''tasks'', PList (map (\<lambda>it. structured_task (fst it) (snd it))
                                (enumerate 0 (potential_tasks_of rt message)))),
            (''actions'', PList (send_reply_action (PStr reply) (PStr sender)
               # map (\<lambda>it. create_task_action (take 100 (snd it)) (PStr (take 100 (snd it)))
                             (dict_get (detect_priority rt message) ''priority'' (PStr ''MEDIUM'')))
                   (enumerate 0 (potential_tasks_of rt message))))]"
    using r(1)
    by (simp add: analyze_with_skills_def Let_def extract_tasks_tasks sug
        direct_task_actions_structured dict_set_def)
  with r(1) show ?thesis by blast
qed

text \<open>
  Claim C1.  Every record assembled by \<open>_structure_output\<close> from the results of a round of
  tool calls, whichever tools were called and whether they succeeded, and so every record
  the agent loop returns, has a priority among HIGH, MEDIUM, LOW and a category among
  work, personal, study, finance, other.  The direct path always returns a record, and
  its priority and category are among the same values.
\<close>

theorem priority_and_category_enumerated:
  "(\<forall>calls ms0 tr ms out.
       run_tool_calls rt calls [] ms0 = Inr (tr, ms)
       \<and> structure_output rt message sender tr synthesis = Inr out
     \<longrightarrow> dict_get out ''priority'' PNone \<in> PRIORITIES
         \<and> dict_get out ''category'' PNone \<in> CATEGORIES)
   \<and> (\<forall>out. analyze_message_try rt client message sender = Inr out
     \<longrightarrow> dict_get out ''priority'' PNone \<in> PRIORITIES
         \<and> dict_get out ''category'' PNone \<in> CATEGORIES)
   \<and> (\<exists>out. analyze_with_skills rt message name = Inr out
         \<and> dict_get out ''priority'' PNone \<in> PRIORITIES
         \<and> dict_get out ''category'' PNone \<in> CATEGORIES)"
proof (intro conjI allI impI)
  have labels: "dict_get out ''priority'' PNone \<in> PRIORITIES
              \<and> dict_get out ''category'' PNone \<in> CATEGORIES"
    if run: "run_tool_calls rt calls [] ms0 = Inr (tr, ms)"
    and out: "structure_output rt message sender tr syn = Inr out"
    for calls ms0 tr ms out syn
  proof -
    let ?a = "assembled message sender tr syn"
    from out structure_output_assembled [OF registry_results_listlike [OF run], of rt message sender syn]
    have "out = ?a @ [(''actions'', PList (derived_actions rt ?a))]" by simp
    moreover have "dict_get (?a @ [(''actions'', v)]) ''priority'' PNone = dict_get ?a ''priority'' PNone"
      "dict_get (?a @ [(''actions'', v)]) ''category'' PNone = dict_get ?a ''category'' PNone" for v
      by (simp_all add: assembled_def dict_get_def)
    ultimately show ?thesis
      using registry_results_labels [OF run, of message sender syn] by simp
  qed
  {
    fix calls ms0 tr ms out
    assume "run_tool_calls rt calls [] ms0 = Inr (tr, ms)
       \<and> structure_output rt message sender tr synthesis = Inr out"
    then show "dict_get out ''priority'' PNone \<in> PRIORITIES"
      and "dict_get out ''category'' PNone \<in> CATEGORIES"
      using labels by blast+
  }
  {
    fix out
    assume body: "analyze_message_try rt client message sender = Inr out"
    have empty: "run_tool_calls rt [] [] [] = Inr ([], [])" by simp
    from body consider
      (direct) syn where "structure_output rt message sender [] syn = Inr out"
    | (tools) calls ms0 tr ms syn where "run_tool_calls rt calls [] ms0 = Inr (tr, ms)"
        "structure_output rt message sender tr syn = Inr out"
      by (auto simp: analyze_message_try_def Let_def split: sum.splits if_splits prod.splits)
    then have "dict_get out ''priority'' PNone \<in> PRIORITIES
              \<and> dict_get out ''category'' PNone \<in> CATEGORIES"
    proof cases
      case direct
      then show ?thesis using labels [OF empty] by blast
    next
      case tools
      then show ?thesis using labels by blast
    qed
    then show "dict_get out ''priority'' PNone \<in> PRIORITIES"
      and "dict_get out ''category'' PNone \<in> CATEGORIES"
      by blast+
  }
  from analyze_with_skills_result [of rt message name] obtain reply where
    "analyze_with_skills rt message name =
       Inr [(''sender'', PStr name),
            (''message'', PStr message),
            (''summary'', dict_get (generate_summary rt message) ''summary'' (PStr [])),
            (''priority'', dict_get (detect_priority rt message) ''priority'' (PStr ''MEDIUM'')),
            (''category'', dict_get (categorize_content rt message) ''category'' (PStr ''other'')),
            (''suggested_reply'', PStr reply),
            (''tasks'', PList (map (\<lambda>it. structured_task (fst it) (snd it))
                                (enumerate 0 (potential_tasks_of rt message)))),
            (''actions'', PList (send_reply_action (PStr reply) (PStr name)
               # map (\<lambda>it. create_task_action (take 100 (snd it)) (PStr (take 100 (snd it)))
                             (dict_get (detect_priority rt message) ''priority'' (PStr ''MEDIUM'')))
                   (enumerate 0 (potential_tasks_of rt message))))]"
    by blast
  then show "\<exists>out. analyze_with_skills rt message name = Inr out
         \<and> dict_get out ''priority'' PNone \<in> PRIORITIES
         \<and> dict_get out ''category'' PNone \<in> CATEGORIES"
    using detect_priority_priority [of rt message "PStr ''MEDIUM''"]
      categorize_content_category [of rt message "PStr ''other''"]
    by (simp add: dict_get_def)
qed

lemma sample_round:
  "\<exists>tr ms. run_tool_calls sample_runtime [summarizer_call, categorizer_call] []
             (planning_request ''hi'') = Inr (tr, ms)"
proof -
  have "list_all (parses sample_runtime) [summarizer_call, categorizer_call]"
    by code_simp
  from run_tool_calls_all_parse [OF this] show ?thesis by auto
qed

theorem priority_and_category_enumerated_witness:
  "\<exists>tr ms out. run_tool_calls sample_runtime [summarizer_call, categorizer_call] []
                  (planning_request ''hi'') = Inr (tr, ms)
       \<and> structure_output sample_runtime ''hi'' None tr None = Inr out
       \<and> dict_get out ''priority'' PNone \<in> PRIORITIES
       \<and> dict_get out ''category'' PNone \<in> CATEGORIES"
proof -
  from sample_round obtain tr ms where
    run: "run_tool_calls sample_runtime [summarizer_call, categorizer_call] []
            (planning_request ''hi'') = Inr (tr, ms)"
    by blast
  from structure_output_assembled [OF registry_results_listlike [OF run]]
  obtain out where out: "structure_output sample_runtime ''hi'' None tr None = Inr out"
    by blast
  from priority_and_category_enumerated [of sample_runtime "''hi''" None None] run out
  have "dict_get out ''priority'' PNone \<in> PRIORITIES
      \<and> dict_get out ''category'' PNone \<in> CATEGORIES"
    by blast
  with run out show ?thesis by blast
qed

text \<open>
  Claim C7.  From the results of a round of tool calls, \<open>_structure_output\<close> always
  returns a record, and each field is set on its own: the summary is absent unless the
  summarizer was called; the priority is MEDIUM unless the priority detector's result
  supplies one, which is then one of HIGH, MEDIUM, LOW; the category is "other" unless
  the categorizer's result supplies one, which is then a known category; the suggested
  reply is the first element of the reply suggester's suggestions when that list is not
  empty, and absent otherwise; the tasks are the task extractor's task list as it is, or
  empty.  (\<open>assembled\<close> writes these defaults out field by field.)
\<close>

theorem assembly_defaults:
  assumes "run_tool_calls rt calls [] ms0 = Inr (tr, ms)"
  shows "structure_output rt message sender tr synthesis
           = Inr (assembled message sender tr synthesis
                  @ [(''actions'',
                      PList (derived_actions rt (assembled message sender tr synthesis)))])
       \<and> dict_get (assembled message sender tr synthesis) ''priority'' PNone \<in> PRIORITIES
       \<and> dict_get (assembled message sender tr synthesis) ''category'' PNone \<in> CATEGORIES
       \<and> listlike_suggestions tr \<and> listlike_tasks tr"
  using structure_output_assembled [OF registry_results_listlike [OF assms]]
    registry_results_labels [OF assms] registry_results_listlike [OF assms]
  by simp

theorem assembly_defaults_witness:
  "\<exists>tr ms. run_tool_calls sample_runtime [summarizer_call, categorizer_call] []
              (planning_request ''hi'') = Inr (tr, ms)
       \<and> structure_output sample_runtime ''hi'' None tr (Some ''Done.'')
           = Inr (assembled ''hi'' None tr (Some ''Done.'')
                  @ [(''actions'',
                      PList (derived_actions sample_runtime
                               (assembled ''hi'' None tr (Some ''Done.''))))])
       \<and> dict_get (assembled ''hi'' None tr (Some ''Done.'')) ''priority'' PNone \<in> PRIORITIES"
proof -
  from sample_round obtain tr ms where
    run: "run_tool_calls sample_runtime [summarizer_call, categorizer_call] []
            (planning_request ''hi'') = Inr (tr, ms)"
    by blast
  from assembly_defaults [OF run, of "''hi''" None "Some ''Done.''"] run
  show ?thesis by blast
qed

lemma review_indicator: "any_in task_indicators (lower ''Please review the report'')"
  by code_simp

lemma review_lines:
  "map strip (split_on CHR 0x0A ''Please review the report'') = [''Please review the report'']"
  by code_simp

lemma review_sentences:
  "split_runs is_sentence_end False ''Please review the report'' = [''Please review the report'']"
  by code_simp

lemma review_clean1:
  "strip_number (strip_bullet ''Please review the report'') = ''Please review the report''"
  by code_simp

lemma review_clean2:
  "strip_bullet ''Please review the report'' = ''Please review the report''"
  by code_simp

lemma review_clean3:
  "strip ''Please review the report'' = ''Please review the report''"
  by code_simp

lemma review_clean4:
  "\<not> prefix ''#'' ''Please review the report''"
  by simp

lemma review_clean5:
  "take 100 ''Please review the report'' = ''Please review the report''"
  by simp

lemma review_clean6:
  "task_priority ''Please review the report'' = ''normal''"
  by code_simp

lemma review_task_line: "is_task_line rt ''Please review the report''"
  by (simp only: is_task_line_def Let_def review_indicator) simp

lemma review_line_tasks:
  "line_tasks rt ''Please review the report'' = [''Please review the report'']"
  unfolding line_tasks_def review_lines
  by (simp only: list.map filter.simps review_task_line review_clean1 review_clean4
        simp_thms if_True if_False list.distinct not_Cons_self2)

lemma review_sentence_tasks:
  "sentence_tasks rt [''Please review the report''] [''Please review the report'']
     = [''Please review the report'']"
  by (simp only: sentence_tasks.simps Let_def review_clean3 review_clean2 list.set
        insertI1 if_True if_cancel)

lemma review_tasks:
  "potential_tasks_of rt ''Please review the report'' = [''Please review the report'']"
  by (simp only: potential_tasks_of_def review_sentences review_line_tasks
        review_sentence_tasks)

lemma review_structured:
  "dict_get (extract_tasks rt ''Please review the report'') ''tasks'' dflt = PList [review_task]"
  by (simp add: extract_tasks_tasks review_tasks structured_task_def
      review_clean5 review_clean6 review_task_def del: take_Cons_numeral)

lemma review_tool_result:
  "execute_tool rt ''task_extractor'' (PDict [(''content'', PStr ''Please review the report'')])
     = extract_tasks rt ''Please review the report''"
  by (simp add: execute_tool_def TOOLS_def task_extractor_tool_def content_of_def
      bind_kwargs_def as_text_def dict_get_def)

lemma review_agent_record:
  "structure_output rt ''Please review the report'' None
      [(''task_extractor'', extract_tasks rt ''Please review the report'')] None
   = Inr (assembled ''Please review the report'' None
            [(''task_extractor'', extract_tasks rt ''Please review the report'')] None
          @ [(''actions'', PList [create_task_action (py_str rt review_task) review_task
                                    (PStr ''MEDIUM'')])])"
proof -
  let ?tr = "[(''task_extractor'', extract_tasks rt ''Please review the report'')]"
  have l1: "listlike_suggestions ?tr"
    by (simp add: listlike_suggestions_def)
  have l2: "listlike_tasks ?tr"
    by (simp add: listlike_tasks_def review_structured)
  have "derived_actions rt (assembled ''Please review the report'' None ?tr None)
        = [create_task_action (py_str rt review_task) review_task (PStr ''MEDIUM'')]"
    by (simp add: derived_actions_def assembled_def dict_get_def [of "_ # _"] Let_def
        review_structured fmt_def review_task_def)
  with structure_output_assembled [OF l1 l2, of rt "''Please review the report''" None None]
  show ?thesis by simp
qed

text \<open>
  Claim C2, where the code departs from it.  For the message "Please review the report"
  the task extractor returns one task descriptor.  On the direct path the derived
  \<open>create_task\<close> action carries the task's text, and that text follows "Create task: " in
  the description.  On the agent path \<open>_determine_actions\<close> stores the whole descriptor
  as the task and formats the descriptor into the description.
\<close>

theorem created_task_payload:
  "(\<exists>out. structure_output rt ''Please review the report'' None
             [(''task_extractor'',
               execute_tool rt ''task_extractor''
                 (PDict [(''content'', PStr ''Please review the report'')]))] None = Inr out
        \<and> dict_get out ''tasks'' PNone = PList [review_task]
        \<and> dict_get out ''actions'' PNone
            = PList [create_task_action (py_str rt review_task) review_task (PStr ''MEDIUM'')])
   \<and> (\<exists>out reply. analyze_with_skills rt ''Please review the report'' ''Unknown'' = Inr out
        \<and> dict_get out ''tasks'' PNone = PList [review_task]
        \<and> dict_get out ''actions'' PNone
            = PList [send_reply_action (PStr reply) (PStr ''Unknown''),
                     create_task_action ''Please review the report''
                       (PStr ''Please review the report'') (dict_get out ''priority'' PNone)])
   \<and> review_task \<noteq> PStr ''Please review the report''"
proof (intro conjI)
  have "dict_get (assembled ''Please review the report'' None
            [(''task_extractor'', extract_tasks rt ''Please review the report'')] None
          @ [(''actions'', v)]) ''tasks'' PNone = PList [review_task]" for v
    by (simp add: assembled_def dict_get_def [of "_ # _"] review_structured)
  moreover have "dict_get (assembled ''Please review the report'' None
            [(''task_extractor'', extract_tasks rt ''Please review the report'')] None
          @ [(''actions'', v)]) ''actions'' PNone = v" for v
    by (simp add: assembled_def dict_get_def)
  ultimately show "\<exists>out. structure_output rt ''Please review the report'' None
             [(''task_extractor'',
               execute_tool rt ''task_extractor''
                 (PDict [(''content'', PStr ''Please review the report'')]))] None = Inr out
        \<and> dict_get out ''tasks'' PNone = PList [review_task]
        \<and> dict_get out ''actions'' PNone
            = PList [create_task_action (py_str rt review_task) review_task (PStr ''MEDIUM'')]"
    by (simp only: review_tool_result review_agent_record) blast
next
  from analyze_with_skills_result [of rt "''Please review the report''" "''Unknown''"]
  obtain reply where
    "analyze_with_skills rt ''Please review the report'' ''Unknown'' =
       Inr [(''sender'', PStr ''Unknown''),
            (''message'', PStr ''Please review the report''),
            (''summary'', dict_get (generate_summary rt ''Please review the report'') ''summary'' (PStr [])),
            (''priority'', dict_get (detect_priority rt ''Please review the report'') ''priority'' (PStr ''MEDIUM'')),
            (''category'', dict_get (categorize_content rt ''Please review the report'') ''category'' (PStr ''other'')),
            (''suggested_reply'', PStr reply),
            (''tasks'', PList (map (\<lambda>it. structured_task (fst it) (snd it))
                                (enumerate 0 (potential_tasks_of rt ''Please review the report'')))),
            (''actions'', PList (send_reply_action (PStr reply) (PStr ''Unknown'')
               # map (\<lambda>it. create_task_action (take 100 (snd it)) (PStr (take 100 (snd it)))
                             (dict_get (detect_priority rt ''Please review the report'') ''priority'' (PStr ''MEDIUM'')))
                   (enumerate 0 (potential_tasks_of rt ''Please review the report''))))]"
    by blast
  then show "\<exists>out reply. analyze_with_skills rt ''Please review the report'' ''Unknown'' = Inr out
        \<and> dict_get out ''tasks'' PNone = PList [review_task]
        \<and> dict_get out ''actions'' PNone
            = PList [send_reply_action (PStr reply) (PStr ''Unknown''),
                     create_task_action ''Please review the report''
                       (PStr ''Please review the report'') (dict_get out ''priority'' PNone)]"
    by (simp add: review_tasks structured_task_def review_clean5 review_clean6
        review_task_def dict_get_def [of "_ # _"] del: take_Cons_numeral)
       blast
next
  show "review_task \<noteq> PStr ''Please review the report''"
    by (simp add: review_task_def)
qed

section \<open>A failed analysis leaves no trace but the error message\<close>

lemma effects_print [simp]: "effects (py_print s w) = effects w"
  by (simp add: effects_def py_print_def prompts_def)

lemma effects_traceback [simp]: "effects (w\<lparr>stdout := stdout w @ [Traceback e]\<rparr>) = effects w"
  by (simp add: effects_def prompts_def)

lemma display_error_payload:
  "display_analysis rt (error_payload e message sender) w = (Inr (), w') \<Longrightarrow> effects w' = effects w"
  by (auto simp: display_analysis_def dict_contains_def error_payload_def Let_def)

lemma display_error_total:
  "\<exists>w'. display_analysis rt (error_payload e message sender) w = (Inr (), w')"
  by (simp add: display_analysis_def dict_contains_def error_payload_def Let_def)

text \<open>
  Claim C10.  When the analysis step of \<open>process_message_file\<close> raises, the handler of the
  function prints the error and returns: nothing is read from the console, no approval
  prompt is shown, no file is written and the message file is not moved.  When the agent
  loop fails, the payload it returns has no \<open>actions\<close> field; displaying it prints the
  error, the test on the actions fails, and neither the approval gate nor the executor
  runs: no prompt, no draft, no task file, no audit entry.
\<close>

theorem failed_analysis_has_no_effects:
  "(\<forall>message e. readable w (VAULT_INBOX @ name) = Inr message
        \<and> analyse message (extract_sender rt name message) = Inl e
      \<longrightarrow> effects (process_message_with analyse rt name w) = effects w)
   \<and> (\<forall>e. analyze_message_try rt client msg sender = Inl e
      \<longrightarrow> map_of (analyze_message rt client msg sender) ''actions'' = None
          \<and> (\<exists>w'. review_result rt (analyze_message rt client msg sender) w = (Inr (), w')
                  \<and> effects w' = effects w))"
proof (intro conjI allI impI)
  fix message e
  assume "readable w (VAULT_INBOX @ name) = Inr message
        \<and> analyse message (extract_sender rt name message) = Inl e"
  then show "effects (process_message_with analyse rt name w) = effects w"
    by (simp add: process_message_with_def Let_def)
next
  fix e
  assume body: "analyze_message_try rt client msg sender = Inl e"
  then have payload: "analyze_message rt client msg sender = error_payload e msg sender"
    by (simp add: analyze_message_def)
  show "map_of (analyze_message rt client msg sender) ''actions'' = None"
    by (simp add: payload error_payload_def)
  from display_error_total [of rt e msg sender w] obtain w' where
    d: "display_analysis rt (error_payload e msg sender) w = (Inr (), w')" by blast
  have "\<not> truthy (dict_get (error_payload e msg sender) ''actions'' PNone)"
    by (simp add: error_payload_def dict_get_def)
  then have "review_result rt (error_payload e msg sender) w = (Inr (), w')"
    by (simp add: review_result_def d)
  with display_error_payload [OF d] payload
  show "\<exists>w'. review_result rt (analyze_message rt client msg sender) w = (Inr (), w')
                  \<and> effects w' = effects w"
    by simp
qed

lemma sample_inbox_readable: "readable sample_inbox (VAULT_INBOX @ ''note_from_bob.txt'') = Inr ''hi''"
  by (simp add: sample_inbox_def VAULT_INBOX_def)

lemma sample_effects: "effects sample_inbox = ([''yes''], 0, [], [])"
  by (simp add: effects_def sample_inbox_def sample_world_def prompts_def)

theorem failed_analysis_has_no_effects_witness:
  "readable sample_inbox (VAULT_INBOX @ ''note_from_bob.txt'') = Inr ''hi''
   \<and> failing_analysis ''hi'' (extract_sender sample_runtime ''note_from_bob.txt'' ''hi'')
       = Inl (Exn ''RuntimeError'' ''analysis failed'')
   \<and> effects (process_message_with failing_analysis sample_runtime ''note_from_bob.txt'' sample_inbox)
       = ([''yes''], 0, [], [])
   \<and> analyze_message_try sample_runtime offline_client ''hi'' None
       = Inl (Exn ''APIConnectionError'' ''Connection error.'')
   \<and> map_of (analyze_message sample_runtime offline_client ''hi'' None) ''actions'' = None
   \<and> (\<exists>w'. review_result sample_runtime (analyze_message sample_runtime offline_client ''hi'' None)
                sample_inbox = (Inr (), w')
            \<and> effects w' = ([''yes''], 0, [], []))"
proof -
  have f: "failing_analysis ''hi'' (extract_sender sample_runtime ''note_from_bob.txt'' ''hi'')
       = Inl (Exn ''RuntimeError'' ''analysis failed'')"
    by (simp add: failing_analysis_def)
  have t: "analyze_message_try sample_runtime offline_client ''hi'' None
       = Inl (Exn ''APIConnectionError'' ''Connection error.'')"
    by (simp add: analyze_message_try_def offline_client_def)
  from failed_analysis_has_no_effects
         [of sample_inbox "''note_from_bob.txt''" failing_analysis sample_runtime
             offline_client "''hi''" None]
       sample_inbox_readable f t sample_effects
  show ?thesis by simp
qed

end
